theory Spec2Isabelle
  imports Main "HOL-Library.AList" "HOL-Library.Char_ord" "HOL-Library.List_Lexorder"
begin

section \<open>The real-time gateway of the chat backend\<close>

text \<open>
  A shallow embedding of the socket handlers (\<^verbatim>\<open>socketHandlers\<close>: \<^verbatim>\<open>onlineUsers\<close>,
  \<^verbatim>\<open>typingUsers\<close>, \<^verbatim>\<open>privateTyping\<close> and the handlers over them), of
  \<^verbatim>\<open>messageService.createMessage\<close> / \<^verbatim>\<open>getRoomMessages\<close>, of
  \<^verbatim>\<open>roomService.getRoomById\<close> and of the model methods they call.

  Conventions.
  \<^item> A handler is a function from the state before to the state after and the list of
    emissions it makes, in the order of the source. Each handler is one atomic step.
  \<^item> A JavaScript \<^verbatim>\<open>Map\<close> is an association list in insertion order; a JavaScript
    \<^verbatim>\<open>Set\<close> is a list in insertion order.
  \<^item> Identifiers (user, room, message and socket ids) are strings; \<^verbatim>\<open>undefined\<close> is
    \<open>None\<close>. An id of the store stands for a well-formed \<^verbatim>\<open>ObjectId\<close>: the cast error of
    a malformed id is outside the model. Timestamps are integers (milliseconds); the
    clock and the fresh message id are arguments of a handler.
  \<^item> The document store is a record of three collections. It is always reachable: a
    driver failure is outside the model.
  \<^item> A message content is a JavaScript string: the list of its UTF-16 code units, so
    that \<open>length\<close> is \<^verbatim>\<open>.length\<close> and \<^verbatim>\<open>trim\<close> sees the Unicode white space.
  \<^item> Payload fields that no handler reads back (avatar, metadata, reactions, server
    timestamps of presence events) are left out of the events.
\<close>

subsection \<open>JavaScript Map and Set\<close>

type_synonym ('k, 'v) js_map = "('k \<times> 'v) list"
type_synonym 'a js_set = "'a list"

definition map_get :: "('k, 'v) js_map \<Rightarrow> 'k \<Rightarrow> 'v option" where
  "map_get m k = map_of m k"

definition map_has :: "('k, 'v) js_map \<Rightarrow> 'k \<Rightarrow> bool" where
  "map_has m k = (map_of m k \<noteq> None)"

definition map_set :: "'k \<Rightarrow> 'v \<Rightarrow> ('k, 'v) js_map \<Rightarrow> ('k, 'v) js_map" where
  "map_set k v m = AList.update k v m"

definition map_delete :: "'k \<Rightarrow> ('k, 'v) js_map \<Rightarrow> ('k, 'v) js_map" where
  "map_delete k m = AList.delete k m"

definition set_has :: "'a js_set \<Rightarrow> 'a \<Rightarrow> bool" where
  "set_has s x = (x \<in> set s)"

definition set_add :: "'a \<Rightarrow> 'a js_set \<Rightarrow> 'a js_set" where
  "set_add x s = (if x \<in> set s then s else s @ [x])"

definition set_delete :: "'a \<Rightarrow> 'a js_set \<Rightarrow> 'a js_set" where
  "set_delete x s = removeAll x s"

subsection \<open>Data\<close>

type_synonym user_id = string
type_synonym socket_id = string
type_synonym room_id = string
type_synonym msg_id = string

text \<open>A JavaScript string value as its UTF-16 code units (each below \<open>65536\<close>);
  \<open>ascii\<close> writes one from an ASCII literal.\<close>

type_synonym js_string = "nat list"

definition ascii :: "string \<Rightarrow> js_string" where
  "ascii s = map of_char s"

text \<open>\<^verbatim>\<open>socket.user\<close>: the fields of the user document the gateway reads.\<close>

record user_info =
  u_id :: user_id
  username :: string

text \<open>
  A socket that reaches a handler has passed \<^verbatim>\<open>authenticateSocket\<close>, which sets
  \<^verbatim>\<open>socket.userId\<close> and \<^verbatim>\<open>socket.user\<close> together; \<^verbatim>\<open>socket.user\<close> is an object
  and so always truthy.
\<close>

record socket =
  sock_id :: socket_id
  userId :: user_id
  sock_user :: user_info

text \<open>The value stored in \<^verbatim>\<open>onlineUsers\<close>.\<close>

record user_data =
  socketId :: socket_id
  ud_user :: user_info
  connectedAt :: int
  rooms :: "room_id js_set"

text \<open>The value stored in \<^verbatim>\<open>privateTyping\<close>.\<close>

record typing_data =
  td_userId :: user_id
  td_username :: string
  startTime :: int

text \<open>The documents of the store.\<close>

record user_doc =
  ud_id :: user_id
  ud_username :: string
  blockedUsers :: "user_id list"
  isOnline :: bool
  lastSeen :: int

record room_doc =
  r_id :: room_id
  r_type :: string
  creator :: user_id
  members :: "user_id list"
  admins :: "user_id list"
  isActive :: bool
  muteAll :: bool
  messageCount :: nat
  totalMessages :: nat
  lastActivity :: int

record message_doc =
  m_id :: msg_id
  m_sender :: user_id
  m_room :: "room_id option"
  m_recipient :: "user_id option"
  m_content :: js_string
  m_type :: string
  m_isPrivate :: bool
  m_replyTo :: "msg_id option"
  m_isDeleted :: bool
  m_createdAt :: int

text \<open>
  The process state: the three module-level maps, the socket.io adapter (which sockets
  are connected, which socket has joined which room) and the store.
\<close>

record world =
  onlineUsers :: "(user_id, user_data) js_map"
  typingUsers :: "(room_id, user_id js_set) js_map"
  privateTyping :: "(string, typing_data) js_map"
  sio_connected :: "socket_id set"
  sio_joined :: "(room_id \<times> socket_id) set"
  db_users :: "user_doc list"
  db_rooms :: "room_doc list"
  db_messages :: "message_doc list"

subsection \<open>Outbound events and their targets\<close>

text \<open>\<^verbatim>\<open>messageData\<close>, the payload built by the send handlers.\<close>

record message_data =
  md_id :: msg_id
  md_content :: js_string
  md_type :: string
  md_sender :: user_id
  md_sender_name :: string
  md_roomId :: "room_id option"
  md_recipientId :: "user_id option"
  md_replyTo :: "msg_id option"
  md_timestamp :: int

datatype scope = InRoom room_id | Private

datatype event =
    Error string "string option"
  | UserOnline user_id "room_id option"
  | UserOffline user_id "room_id option"
  | OnlineUsers "user_id list"
  | Connected user_id
  | UserJoined user_id room_id
  | UserLeft user_id room_id
  | RoomJoined room_id
  | RoomLeft room_id
  | RoomMessages room_id "message_doc list" bool
  | MessageReceived message_data
  | MessageSent "string option" message_data
  | PrivateMessageReceived message_data
  | PrivateMessageSent "string option" message_data
  | TypingStart user_id scope
  | TypingStop user_id scope

text \<open>
  \<open>ToSocket s\<close> is \<^verbatim>\<open>socket.emit\<close>, \<open>RoomExcept r s\<close> is \<^verbatim>\<open>socket.to(r).emit\<close>,
  \<open>ToRoom r\<close> is \<^verbatim>\<open>io.to(r).emit\<close> and \<open>Everyone\<close> is \<^verbatim>\<open>io.emit\<close>.
\<close>

datatype target = ToSocket socket_id | RoomExcept room_id socket_id | ToRoom room_id | Everyone

type_synonym emission = "target \<times> event"

text \<open>
  socket.io's delivery: a connected socket is in the room named by its own id and in
  the rooms it has joined.
\<close>

definition room_sockets :: "world \<Rightarrow> room_id \<Rightarrow> socket_id set" where
  "room_sockets w r = {s \<in> sio_connected w. s = r \<or> (r, s) \<in> sio_joined w}"

fun recipients :: "world \<Rightarrow> target \<Rightarrow> socket_id set" where
  "recipients w (ToSocket s) = {s} \<inter> sio_connected w"
| "recipients w (RoomExcept r s) = room_sockets w r - {s}"
| "recipients w (ToRoom r) = room_sockets w r"
| "recipients w Everyone = sio_connected w"

text \<open>The events a socket receives from a list of emissions, in order.\<close>

definition received :: "world \<Rightarrow> emission list \<Rightarrow> socket_id \<Rightarrow> event list" where
  "received w ems s = map snd (filter (\<lambda>e. s \<in> recipients w (fst e)) ems)"

subsection \<open>Disconnect: \<^verbatim>\<open>cleanupUserData\<close>, \<^verbatim>\<open>broadcastUserStatus\<close>, \<^verbatim>\<open>handleDisconnection\<close>\<close>

text \<open>The first block of \<^verbatim>\<open>cleanupUserData\<close>: the registry entry goes only if it
  records the socket that is disconnecting.\<close>

definition cleanupRegistry ::
  "user_id \<Rightarrow> socket_id \<Rightarrow> (user_id, user_data) js_map \<Rightarrow> (user_id, user_data) js_map" where
  "cleanupRegistry uid sid ou =
     (if map_has ou uid then
        (case map_get ou uid of
           Some userData \<Rightarrow> if socketId userData = sid then map_delete uid ou else ou
         | None \<Rightarrow> ou)
      else ou)"

text \<open>The loop over \<^verbatim>\<open>typingUsers.entries()\<close>.\<close>

fun cleanupTypingSets :: "user_id \<Rightarrow> (room_id, user_id js_set) js_map \<Rightarrow> (room_id, user_id js_set) js_map" where
  "cleanupTypingSets uid [] = []"
| "cleanupTypingSets uid ((roomId, typingSet) # rest) =
     (if set_has typingSet uid then
        (let typingSet' = set_delete uid typingSet in
         if length typingSet' = 0 then cleanupTypingSets uid rest
         else (roomId, typingSet') # cleanupTypingSets uid rest)
      else (roomId, typingSet) # cleanupTypingSets uid rest)"

text \<open>The loop over \<^verbatim>\<open>privateTyping.entries()\<close>.\<close>

fun cleanupPrivateTyping :: "user_id \<Rightarrow> (string, typing_data) js_map \<Rightarrow> (string, typing_data) js_map" where
  "cleanupPrivateTyping uid [] = []"
| "cleanupPrivateTyping uid ((conversationKey, typingData) # rest) =
     (if td_userId typingData = uid then cleanupPrivateTyping uid rest
      else (conversationKey, typingData) # cleanupPrivateTyping uid rest)"

definition cleanupUserData :: "user_id \<Rightarrow> socket_id \<Rightarrow> world \<Rightarrow> world" where
  "cleanupUserData uid sid w =
     w\<lparr>onlineUsers := cleanupRegistry uid sid (onlineUsers w),
       typingUsers := cleanupTypingSets uid (typingUsers w),
       privateTyping := cleanupPrivateTyping uid (privateTyping w)\<rparr>"

definition broadcastUserStatus :: "user_info \<Rightarrow> bool \<Rightarrow> emission" where
  "broadcastUserStatus u online =
     (Everyone, if online then UserOnline (u_id u) None else UserOffline (u_id u) None)"

text \<open>\<^verbatim>\<open>User.findByIdAndUpdate(id, {isOnline, lastSeen})\<close>.\<close>

definition setUserStatus :: "user_id \<Rightarrow> bool \<Rightarrow> int \<Rightarrow> user_doc list \<Rightarrow> user_doc list" where
  "setUserStatus uid online now us =
     map (\<lambda>u. if ud_id u = uid then u\<lparr>isOnline := online, lastSeen := now\<rparr> else u) us"

text \<open>
  \<^verbatim>\<open>handleDisconnection\<close>. The guard \<^verbatim>\<open>socket.userId && socket.user\<close> is a non-empty
  id. The registry is read for the room set after \<^verbatim>\<open>cleanupUserData\<close> has run, as in
  the source.
\<close>

definition handleDisconnection :: "socket \<Rightarrow> int \<Rightarrow> world \<Rightarrow> world \<times> emission list" where
  "handleDisconnection sock now w =
     (if userId sock = [] then (w, [])
      else
        (let w1 = cleanupUserData (userId sock) (sock_id sock) w;
             w2 = w1\<lparr>db_users := setUserStatus (userId sock) False now (db_users w1)\<rparr>;
             global = broadcastUserStatus (sock_user sock) False;
             perRoom = (case map_get (onlineUsers w2) (userId sock) of
                          None \<Rightarrow> []
                        | Some userData \<Rightarrow>
                            map (\<lambda>roomId. (RoomExcept roomId (sock_id sock),
                                            UserOffline (userId sock) (Some roomId)))
                                (rooms userData))
         in (w2, global # perRoom)))"

subsection \<open>Connect: \<^verbatim>\<open>sendOnlineUsersList\<close>, \<^verbatim>\<open>handleConnection\<close>\<close>

definition sendOnlineUsersList :: "socket \<Rightarrow> world \<Rightarrow> emission" where
  "sendOnlineUsersList sock w =
     (ToSocket (sock_id sock),
      OnlineUsers (map (\<lambda>userData. u_id (ud_user userData))
                       (filter (\<lambda>userData. u_id (ud_user userData) \<noteq> userId sock)
                               (map snd (onlineUsers w)))))"

text \<open>\<^verbatim>\<open>onlineUsers.get(uid).rooms.add(roomId)\<close> and \<^verbatim>\<open>.rooms.delete(roomId)\<close>: the
  entry is mutated in place. Every caller has the entry present (it has just been set,
  or the call is guarded by \<^verbatim>\<open>onlineUsers.has\<close>).\<close>

definition addUserRoom :: "user_id \<Rightarrow> room_id \<Rightarrow> (user_id, user_data) js_map \<Rightarrow> (user_id, user_data) js_map" where
  "addUserRoom uid roomId ou =
     (case map_get ou uid of
        None \<Rightarrow> ou
      | Some userData \<Rightarrow> map_set uid (userData\<lparr>rooms := set_add roomId (rooms userData)\<rparr>) ou)"

definition deleteUserRoom :: "user_id \<Rightarrow> room_id \<Rightarrow> (user_id, user_data) js_map \<Rightarrow> (user_id, user_data) js_map" where
  "deleteUserRoom uid roomId ou =
     (case map_get ou uid of
        None \<Rightarrow> ou
      | Some userData \<Rightarrow> map_set uid (userData\<lparr>rooms := set_delete roomId (rooms userData)\<rparr>) ou)"

text \<open>The loop over the user's active rooms in \<^verbatim>\<open>handleConnection\<close>.\<close>

fun joinUserRooms :: "socket \<Rightarrow> room_doc list \<Rightarrow> world \<Rightarrow> world \<times> emission list" where
  "joinUserRooms sock [] w = (w, [])"
| "joinUserRooms sock (room # rest) w =
     (let w1 = w\<lparr>sio_joined := insert (r_id room, sock_id sock) (sio_joined w),
                  onlineUsers := addUserRoom (userId sock) (r_id room) (onlineUsers w)\<rparr>;
          e = (RoomExcept (r_id room) (sock_id sock), UserOnline (userId sock) (Some (r_id room)));
          (w2, es) = joinUserRooms sock rest w1
      in (w2, e # es))"

definition handleConnection :: "socket \<Rightarrow> int \<Rightarrow> world \<Rightarrow> world \<times> emission list" where
  "handleConnection sock now w =
     (let w1 = w\<lparr>onlineUsers :=
                   map_set (userId sock)
                     \<lparr>socketId = sock_id sock, ud_user = sock_user sock,
                      connectedAt = now, rooms = []\<rparr>
                     (onlineUsers w)\<rparr>;
          w2 = w1\<lparr>db_users := setUserStatus (userId sock) True now (db_users w1)\<rparr>;
          e1 = broadcastUserStatus (sock_user sock) True;
          e2 = sendOnlineUsersList sock w2;
          userRooms = filter (\<lambda>r. userId sock \<in> set (members r) \<and> isActive r) (db_rooms w2);
          (w3, es) = joinUserRooms sock userRooms w2
      in (w3, e1 # e2 # es @ [(ToSocket (sock_id sock), Connected (userId sock))]))"

subsection \<open>The room and message models\<close>

text \<open>A string (an id or a content) is truthy when it is present and not empty.\<close>

definition truthy :: "'a list option \<Rightarrow> bool" where
  "truthy x = (case x of None \<Rightarrow> False | Some s \<Rightarrow> s \<noteq> [])"

definition findRoomById :: "room_id \<Rightarrow> world \<Rightarrow> room_doc option" where
  "findRoomById roomId w = find (\<lambda>r. r_id r = roomId) (db_rooms w)"

definition findUserById :: "user_id \<Rightarrow> world \<Rightarrow> user_doc option" where
  "findUserById uid w = find (\<lambda>u. ud_id u = uid) (db_users w)"

definition findMessageById :: "msg_id \<Rightarrow> world \<Rightarrow> message_doc option" where
  "findMessageById mid w = find (\<lambda>m. m_id m = mid) (db_messages w)"

definition isMember :: "room_doc \<Rightarrow> user_id \<Rightarrow> bool" where
  "isMember room uid = (uid \<in> set (members room))"

definition isAdmin :: "room_doc \<Rightarrow> user_id \<Rightarrow> bool" where
  "isAdmin room uid = (uid \<in> set (admins room) \<or> creator room = uid)"

definition hasBlocked :: "user_doc \<Rightarrow> user_id \<Rightarrow> bool" where
  "hasBlocked u uid = (uid \<in> set (blockedUsers u))"

text \<open>\<^verbatim>\<open>roomDoc.incrementMessageCount()\<close>: updates and saves the room document.\<close>

definition incrementMessageCount :: "room_id \<Rightarrow> int \<Rightarrow> world \<Rightarrow> world" where
  "incrementMessageCount roomId now w =
     w\<lparr>db_rooms :=
         map (\<lambda>r. if r_id r = roomId
                   then r\<lparr>messageCount := messageCount r + 1,
                          totalMessages := totalMessages r + 1,
                          lastActivity := now\<rparr>
                   else r)
             (db_rooms w)\<rparr>"

text \<open>
  \<^verbatim>\<open>getRoomById\<close> loads the room with \<^verbatim>\<open>.populate('members', ...)\<close>: each element of
  \<^verbatim>\<open>members\<close> is replaced by the user document it refers to, and a reference with no
  document is dropped.
\<close>

definition populate_members :: "room_doc \<Rightarrow> world \<Rightarrow> user_doc list" where
  "populate_members room w = List.map_filter (\<lambda>memberId. findUserById memberId w) (members room)"

text \<open>
  \<^verbatim>\<open>toString()\<close> of a document is its printed form, an object literal that opens with a
  brace; the fields printed are abridged here. The string of an id is the id.
\<close>

definition doc_toString :: "user_doc \<Rightarrow> string" where
  "doc_toString d = ''{ _id: '' @ ud_id d @ '', username: '' @ ud_username d @ '' }''"

text \<open>
  \<^verbatim>\<open>room.isMember(userId)\<close> on the populated room:
  \<^verbatim>\<open>this.members.some(memberId => memberId.toString() === userId.toString())\<close> compares the
  string of each member document with the string of the id.
\<close>

definition isMember_populated :: "user_doc list \<Rightarrow> user_id \<Rightarrow> bool" where
  "isMember_populated docs uid = list_ex (\<lambda>memberId. doc_toString memberId = uid) docs"

text \<open>\<^verbatim>\<open>roomService.getRoomById\<close>: \<open>Inl\<close> is the message of the \<^verbatim>\<open>AppError\<close> thrown.\<close>

definition getRoomById :: "room_id \<Rightarrow> user_id \<Rightarrow> world \<Rightarrow> string + room_doc" where
  "getRoomById roomId uid w =
     (case findRoomById roomId w of
        None \<Rightarrow> Inl ''Room not found''
      | Some room \<Rightarrow>
          if \<not> isActive room then Inl ''Room is not active''
          else if r_type room = ''private'' \<and> uid \<noteq> []
                  \<and> \<not> isMember_populated (populate_members room w) uid
          then Inl ''You do not have access to this room''
          else Inr room)"

record pagination =
  currentPage :: nat
  totalPages :: nat
  totalMessages_p :: nat
  hasNext :: bool
  hasPrev :: bool
  limit_p :: nat

definition MAX_PAGE_SIZE :: nat where "MAX_PAGE_SIZE = 100"
definition DEFAULT_PAGE_SIZE :: nat where "DEFAULT_PAGE_SIZE = 20"

text \<open>
  \<^verbatim>\<open>Message.findWithPagination(query, page, limit, sort)\<close>: \<open>asc\<close> is the sort
  \<^verbatim>\<open>{createdAt: 1}\<close>, otherwise \<^verbatim>\<open>{createdAt: -1}\<close>. The sort is the stable insertion
  sort on \<^verbatim>\<open>createdAt\<close>; \<^verbatim>\<open>Math.ceil(total / limit)\<close> is computed on naturals.
\<close>

definition findWithPagination ::
  "(message_doc \<Rightarrow> bool) \<Rightarrow> nat \<Rightarrow> nat \<Rightarrow> bool \<Rightarrow> world \<Rightarrow> message_doc list \<times> pagination" where
  "findWithPagination query page lim asc w =
     (let skip = (page - 1) * lim;
          found = filter query (db_messages w);
          sorted_msgs = (if asc then sort_key m_createdAt found
                         else sort_key (\<lambda>m. - m_createdAt m) found);
          total = length found;
          pages = (total + lim - 1) div lim
      in (take lim (drop skip sorted_msgs),
          \<lparr>currentPage = page, totalPages = pages, totalMessages_p = total,
           hasNext = (page < pages), hasPrev = (page > 1), limit_p = lim\<rparr>))"

text \<open>
  \<^verbatim>\<open>messageService.getRoomMessages(roomId, userId, {page, limit, before, after})\<close>.
  The later assignment to \<^verbatim>\<open>query.createdAt\<close> (for \<^verbatim>\<open>after\<close>) replaces the earlier one.
\<close>

definition getRoomMessages ::
  "room_id \<Rightarrow> user_id \<Rightarrow> nat \<Rightarrow> nat \<Rightarrow> int option \<Rightarrow> int option \<Rightarrow> world
     \<Rightarrow> string + (message_doc list \<times> pagination)" where
  "getRoomMessages roomId uid page lim beforeDate afterDate w =
     (case findRoomById roomId w of
        None \<Rightarrow> Inl ''Room not found''
      | Some room \<Rightarrow>
          if \<not> isMember room uid then Inl ''You do not have access to this room''
          else
            (let createdAtOk = (case afterDate of
                                  Some a \<Rightarrow> (\<lambda>m. a < m_createdAt m)
                                | None \<Rightarrow> (case beforeDate of
                                             Some b \<Rightarrow> (\<lambda>m. m_createdAt m < b)
                                           | None \<Rightarrow> (\<lambda>m. True)));
                 query = (\<lambda>m. m_room m = Some roomId \<and> \<not> m_isDeleted m \<and> createdAtOk m);
                 pageNum = max 1 page;
                 limitNum = min MAX_PAGE_SIZE (max 1 lim);
                 (msgs, pg) = findWithPagination query pageNum limitNum (beforeDate = None) w
             in Inr (if beforeDate \<noteq> None \<and> length msgs > 0 then rev msgs else msgs, pg)))"

subsection \<open>\<^verbatim>\<open>messageService.createMessage\<close>\<close>

text \<open>
  \<^verbatim>\<open>String.prototype.trim\<close> strips the code units of ECMAScript's \<^verbatim>\<open>WhiteSpace\<close> and
  \<^verbatim>\<open>LineTerminator\<close>: TAB, LF, VT, FF, CR, SP, NBSP, U+1680, U+2000 to U+200A, U+2028,
  U+2029, U+202F, U+205F, U+3000 and U+FEFF.
\<close>

definition is_space :: "nat \<Rightarrow> bool" where
  "is_space c =
     (c \<in> {0x09, 0x0A, 0x0B, 0x0C, 0x0D, 0x20, 0xA0, 0x1680, 0x2028, 0x2029, 0x202F, 0x205F,
            0x3000, 0xFEFF}
      \<or> (0x2000 \<le> c \<and> c \<le> 0x200A))"

definition trim :: "js_string \<Rightarrow> js_string" where
  "trim s = rev (dropWhile is_space (rev (dropWhile is_space s)))"

text \<open>The string behind a value known to be truthy (\<^verbatim>\<open>undefined\<close> reads as empty).\<close>

definition str_of :: "'a list option \<Rightarrow> 'a list" where
  "str_of x = (case x of None \<Rightarrow> [] | Some s \<Rightarrow> s)"

definition MESSAGE_TYPES :: "string list" where
  "MESSAGE_TYPES = [''text'', ''image'', ''file'', ''system'']"

definition MESSAGE_MAX_LENGTH :: nat where
  "MESSAGE_MAX_LENGTH = 5000"

text \<open>\<^verbatim>\<open>validateMessageInput\<close> is \<open>True\<close> when it does not throw; \<open>length content\<close> is
  \<^verbatim>\<open>content.length\<close>, the number of UTF-16 code units.\<close>

definition validateMessageInput :: "js_string \<Rightarrow> string \<Rightarrow> bool" where
  "validateMessageInput content mtype =
     (\<not> (content = [] \<or> length (trim content) = 0)
      \<and> \<not> length content > MESSAGE_MAX_LENGTH
      \<and> mtype \<in> set MESSAGE_TYPES)"

record create_params =
  cp_sender :: user_id
  cp_room :: "room_id option"
  cp_recipient :: "user_id option"
  cp_content :: js_string
  cp_type :: string
  cp_isPrivate :: bool
  cp_replyTo :: "msg_id option"

text \<open>
  The room branch of \<^verbatim>\<open>createMessage\<close> (\<^verbatim>\<open>if (!isPrivate) { ... }\<close>): the checks in
  order, then \<^verbatim>\<open>await roomDoc.incrementMessageCount()\<close>. \<open>Some\<close> is the message of
  the error thrown.
\<close>

definition createMessage_room :: "create_params \<Rightarrow> int \<Rightarrow> world \<Rightarrow> world \<times> string option" where
  "createMessage_room p now w =
     (if \<not> truthy (cp_room p) then (w, Some ''Room ID is required for room messages'')
      else
        (case findRoomById (str_of (cp_room p)) w of
           None \<Rightarrow> (w, Some ''Room not found'')
         | Some roomDoc \<Rightarrow>
             if \<not> isActive roomDoc then (w, Some ''Cannot send messages to inactive room'')
             else if \<not> isMember roomDoc (cp_sender p)
             then (w, Some ''You do not have access to this room'')
             else if muteAll roomDoc \<and> \<not> isAdmin roomDoc (cp_sender p)
             then (w, Some ''Room is currently muted'')
             else (incrementMessageCount (str_of (cp_room p)) now w, None)))"

text \<open>The private branch of \<^verbatim>\<open>createMessage\<close>.\<close>

definition createMessage_private :: "create_params \<Rightarrow> user_doc \<Rightarrow> world \<Rightarrow> string option" where
  "createMessage_private p senderUser w =
     (if \<not> truthy (cp_recipient p) then Some ''Recipient ID is required for private messages''
      else if cp_sender p = str_of (cp_recipient p)
      then Some ''Cannot send private message to yourself''
      else
        (case findUserById (str_of (cp_recipient p)) w of
           None \<Rightarrow> Some ''Recipient not found''
         | Some recipientUser \<Rightarrow>
             if hasBlocked recipientUser (cp_sender p) then Some ''Cannot send message to this user''
             else if hasBlocked senderUser (str_of (cp_recipient p))
             then Some ''Cannot send message to blocked user''
             else None))"

text \<open>The reply block of \<^verbatim>\<open>createMessage\<close> (\<^verbatim>\<open>if (replyTo) { ... }\<close>).\<close>

definition createMessage_reply :: "create_params \<Rightarrow> world \<Rightarrow> string option" where
  "createMessage_reply p w =
     (if \<not> truthy (cp_replyTo p) then None
      else
        (case findMessageById (str_of (cp_replyTo p)) w of
           None \<Rightarrow> Some ''Parent message not found''
         | Some parentMessage \<Rightarrow>
             if m_isDeleted parentMessage then Some ''Cannot reply to deleted message''
             else if \<not> cp_isPrivate p \<and> m_room parentMessage \<noteq> cp_room p
             then Some ''Can only reply to messages in the same room''
             else if cp_isPrivate p \<and>
                     \<not> ((m_sender parentMessage = cp_sender p
                           \<and> m_recipient parentMessage = cp_recipient p)
                        \<or> (m_recipient parentMessage = Some (cp_sender p)
                           \<and> Some (m_sender parentMessage) = cp_recipient p))
             then Some ''Can only reply to messages in the same conversation''
             else None))"

text \<open>
  \<^verbatim>\<open>createMessage\<close>: \<open>Inl\<close> is the message of the \<^verbatim>\<open>AppError\<close> thrown, \<open>Inr\<close> the saved
  message with its populated sender. The state is returned on both paths, since the
  room document is saved before the reply is checked.
\<close>

definition createMessage ::
  "create_params \<Rightarrow> int \<Rightarrow> msg_id \<Rightarrow> world \<Rightarrow> world \<times> (string + message_doc \<times> user_doc)" where
  "createMessage p now mid w =
     (if \<not> validateMessageInput (cp_content p) (cp_type p) then (w, Inl ''Validation error'')
      else
        (case findUserById (cp_sender p) w of
           None \<Rightarrow> (w, Inl ''User not found'')
         | Some senderUser \<Rightarrow>
             (let (w1, scopeError) =
                    (if \<not> cp_isPrivate p then createMessage_room p now w
                     else (w, createMessage_private p senderUser w))
              in case scopeError of
                   Some err \<Rightarrow> (w1, Inl err)
                 | None \<Rightarrow>
                     (case createMessage_reply p w1 of
                        Some err \<Rightarrow> (w1, Inl err)
                      | None \<Rightarrow>
                          (let message =
                                 \<lparr>m_id = mid, m_sender = cp_sender p,
                                  m_room = (if cp_isPrivate p then None else cp_room p),
                                  m_recipient = (if cp_isPrivate p then cp_recipient p else None),
                                  m_content = trim (cp_content p), m_type = cp_type p,
                                  m_isPrivate = cp_isPrivate p,
                                  m_replyTo = (if truthy (cp_replyTo p) then cp_replyTo p else None),
                                  m_isDeleted = False, m_createdAt = now\<rparr>
                           in (w1\<lparr>db_messages := db_messages w1 @ [message]\<rparr>,
                               Inr (message, senderUser)))))))"

subsection \<open>Room handlers: \<^verbatim>\<open>handleJoinRoom\<close>, \<^verbatim>\<open>handleLeaveRoom\<close>\<close>

text \<open>
  The services throw and never return \<^verbatim>\<open>success: false\<close>, so a failed call lands in the
  handler's \<^verbatim>\<open>catch\<close>, which emits the handler's own message with the error's message.
\<close>

definition handleJoinRoom :: "socket \<Rightarrow> room_id option \<Rightarrow> world \<Rightarrow> world \<times> emission list" where
  "handleJoinRoom sock roomIdOpt w =
     (if \<not> truthy roomIdOpt then (w, [(ToSocket (sock_id sock), Error ''Room ID is required'' None)])
      else
        (let roomId = str_of roomIdOpt in
         case getRoomById roomId (userId sock) w of
           Inl err \<Rightarrow> (w, [(ToSocket (sock_id sock), Error ''Failed to join room'' (Some err))])
         | Inr room \<Rightarrow>
             (let w1 = w\<lparr>sio_joined := insert (roomId, sock_id sock) (sio_joined w),
                          onlineUsers := (if map_has (onlineUsers w) (userId sock)
                                          then addUserRoom (userId sock) roomId (onlineUsers w)
                                          else onlineUsers w)\<rparr>;
                  e1 = (RoomExcept roomId (sock_id sock), UserJoined (userId sock) roomId);
                  e2 = (ToSocket (sock_id sock), RoomJoined roomId)
              in case getRoomMessages roomId (userId sock) 1 50 None None w1 of
                   Inl err \<Rightarrow>
                     (w1, [e1, e2, (ToSocket (sock_id sock), Error ''Failed to join room'' (Some err))])
                 | Inr (msgs, pg) \<Rightarrow>
                     (w1, [e1, e2, (ToSocket (sock_id sock),
                                    RoomMessages roomId (rev msgs) (hasNext pg))]))))"

definition handleLeaveRoom :: "socket \<Rightarrow> room_id option \<Rightarrow> world \<Rightarrow> world \<times> emission list" where
  "handleLeaveRoom sock roomIdOpt w =
     (if \<not> truthy roomIdOpt then (w, [(ToSocket (sock_id sock), Error ''Room ID is required'' None)])
      else
        (let roomId = str_of roomIdOpt in
         case findRoomById roomId w of
           None \<Rightarrow> (w, [(ToSocket (sock_id sock), Error ''Room not found'' None)])
         | Some room \<Rightarrow>
             (let w1 = w\<lparr>sio_joined := sio_joined w - {(roomId, sock_id sock)},
                          onlineUsers := (if map_has (onlineUsers w) (userId sock)
                                          then deleteUserRoom (userId sock) roomId (onlineUsers w)
                                          else onlineUsers w)\<rparr>;
                  (tu, typingEms) =
                    (case map_get (typingUsers w1) roomId of
                       None \<Rightarrow> (typingUsers w1, [])
                     | Some typingSet \<Rightarrow>
                         (let typingSet' = set_delete (userId sock) typingSet in
                          if length typingSet' = 0 then (map_delete roomId (typingUsers w1), [])
                          else (map_set roomId typingSet' (typingUsers w1),
                                [(RoomExcept roomId (sock_id sock),
                                  TypingStop (userId sock) (InRoom roomId))])))
              in (w1\<lparr>typingUsers := tu\<rparr>,
                  typingEms @ [(RoomExcept roomId (sock_id sock), UserLeft (userId sock) roomId),
                               (ToSocket (sock_id sock), RoomLeft roomId)]))))"

subsection \<open>Send handlers: \<^verbatim>\<open>handleSendMessage\<close>, \<^verbatim>\<open>handleSendPrivateMessage\<close>\<close>

record send_payload =
  sp_roomId :: "room_id option"
  sp_content :: "js_string option"
  sp_type :: "string option"
  sp_replyTo :: "msg_id option"
  sp_tempId :: "string option"

record private_payload =
  pp_recipientId :: "user_id option"
  pp_content :: "js_string option"
  pp_type :: "string option"
  pp_replyTo :: "msg_id option"
  pp_tempId :: "string option"

text \<open>The default of the destructuring \<^verbatim>\<open>type = MESSAGE_TYPES.TEXT\<close>.\<close>

definition type_or_text :: "string option \<Rightarrow> string" where
  "type_or_text t = (case t of None \<Rightarrow> ''text'' | Some x \<Rightarrow> x)"

definition messageData :: "message_doc \<Rightarrow> user_doc \<Rightarrow> room_id option \<Rightarrow> user_id option \<Rightarrow> message_data" where
  "messageData message senderUser roomId recipientId =
     \<lparr>md_id = m_id message, md_content = m_content message, md_type = m_type message,
      md_sender = ud_id senderUser, md_sender_name = ud_username senderUser,
      md_roomId = roomId, md_recipientId = recipientId,
      md_replyTo = m_replyTo message, md_timestamp = m_createdAt message\<rparr>"

definition handleSendMessage ::
  "socket \<Rightarrow> send_payload \<Rightarrow> int \<Rightarrow> msg_id \<Rightarrow> world \<Rightarrow> world \<times> emission list" where
  "handleSendMessage sock d now mid w =
     (if \<not> truthy (sp_roomId d) \<or> \<not> truthy (sp_content d) \<or> trim (str_of (sp_content d)) = []
      then (w, [(ToSocket (sock_id sock),
                 Error ''Room ID and message content are required'' None)])
      else
        (let roomId = str_of (sp_roomId d) in
         case createMessage
                \<lparr>cp_sender = userId sock, cp_room = sp_roomId d, cp_recipient = None,
                 cp_content = trim (str_of (sp_content d)), cp_type = type_or_text (sp_type d),
                 cp_isPrivate = False, cp_replyTo = sp_replyTo d\<rparr> now mid w of
           (w1, Inl err) \<Rightarrow>
             (w1, [(ToSocket (sock_id sock), Error ''Failed to send message'' (Some err))])
         | (w1, Inr (message, senderUser)) \<Rightarrow>
             (let md = messageData message senderUser (Some roomId) None;
                  e1 = (RoomExcept roomId (sock_id sock), MessageReceived md);
                  e2 = (ToSocket (sock_id sock), MessageSent (sp_tempId d) md)
              in case map_get (typingUsers w1) roomId of
                   None \<Rightarrow> (w1, [e1, e2])
                 | Some typingSet \<Rightarrow>
                     if set_has typingSet (userId sock)
                     then (w1\<lparr>typingUsers :=
                                 map_set roomId (set_delete (userId sock) typingSet) (typingUsers w1)\<rparr>,
                           [e1, e2, (RoomExcept roomId (sock_id sock),
                                     TypingStop (userId sock) (InRoom roomId))])
                     else (w1, [e1, e2]))))"

text \<open>\<^verbatim>\<open>[userId1, userId2].sort().join(':')\<close>: the default sort compares the strings.\<close>

definition getConversationKey :: "user_id \<Rightarrow> user_id \<Rightarrow> string" where
  "getConversationKey userId1 userId2 =
     (if userId2 < userId1 then userId2 @ '':'' @ userId1 else userId1 @ '':'' @ userId2)"

definition handleSendPrivateMessage ::
  "socket \<Rightarrow> private_payload \<Rightarrow> int \<Rightarrow> msg_id \<Rightarrow> world \<Rightarrow> world \<times> emission list" where
  "handleSendPrivateMessage sock d now mid w =
     (if \<not> truthy (pp_recipientId d) \<or> \<not> truthy (pp_content d) \<or> trim (str_of (pp_content d)) = []
      then (w, [(ToSocket (sock_id sock),
                 Error ''Recipient ID and message content are required'' None)])
      else if str_of (pp_recipientId d) = userId sock
      then (w, [(ToSocket (sock_id sock), Error ''Cannot send message to yourself'' None)])
      else
        (let recipientId = str_of (pp_recipientId d) in
         case createMessage
                \<lparr>cp_sender = userId sock, cp_room = None, cp_recipient = pp_recipientId d,
                 cp_content = trim (str_of (pp_content d)), cp_type = type_or_text (pp_type d),
                 cp_isPrivate = True, cp_replyTo = pp_replyTo d\<rparr> now mid w of
           (w1, Inl err) \<Rightarrow>
             (w1, [(ToSocket (sock_id sock), Error ''Failed to send private message'' (Some err))])
         | (w1, Inr (message, senderUser)) \<Rightarrow>
             (let md = messageData message senderUser None (Some recipientId);
                  recipientData = map_get (onlineUsers w1) recipientId;
                  e1 = (case recipientData of
                          None \<Rightarrow> []
                        | Some rd \<Rightarrow> [(ToRoom (socketId rd), PrivateMessageReceived md)]);
                  e2 = (ToSocket (sock_id sock), PrivateMessageSent (pp_tempId d) md);
                  conversationKey = getConversationKey (userId sock) recipientId
              in if map_has (privateTyping w1) conversationKey
                 then (w1\<lparr>privateTyping := map_delete conversationKey (privateTyping w1)\<rparr>,
                       e1 @ [e2] @
                       (case recipientData of
                          None \<Rightarrow> []
                        | Some rd \<Rightarrow> [(ToRoom (socketId rd), TypingStop (userId sock) Private)]))
                 else (w1, e1 @ [e2]))))"

subsection \<open>Typing: \<^verbatim>\<open>handleTypingStart\<close>, \<^verbatim>\<open>handleTypingStop\<close>, \<^verbatim>\<open>cleanupTypingIndicators\<close>\<close>

record typing_payload =
  tp_roomId :: "room_id option"
  tp_isPrivate :: bool
  tp_recipientId :: "user_id option"

definition handleTypingStart :: "socket \<Rightarrow> typing_payload \<Rightarrow> int \<Rightarrow> world \<Rightarrow> world \<times> emission list" where
  "handleTypingStart sock d now w =
     (if tp_isPrivate d \<and> truthy (tp_recipientId d) then
        (let recipientId = str_of (tp_recipientId d);
             conversationKey = getConversationKey (userId sock) recipientId;
             w1 = w\<lparr>privateTyping :=
                      map_set conversationKey
                        \<lparr>td_userId = userId sock, td_username = username (sock_user sock),
                         startTime = now\<rparr>
                        (privateTyping w)\<rparr>
         in (w1, case map_get (onlineUsers w1) recipientId of
                   None \<Rightarrow> []
                 | Some rd \<Rightarrow> [(ToRoom (socketId rd), TypingStart (userId sock) Private)]))
      else if truthy (tp_roomId d) then
        (let roomId = str_of (tp_roomId d);
             tu = (if \<not> map_has (typingUsers w) roomId then map_set roomId [] (typingUsers w)
                   else typingUsers w);
             typingSet = (case map_get tu roomId of None \<Rightarrow> [] | Some ts \<Rightarrow> ts);
             tu' = map_set roomId (set_add (userId sock) typingSet) tu
         in (w\<lparr>typingUsers := tu'\<rparr>,
             [(RoomExcept roomId (sock_id sock), TypingStart (userId sock) (InRoom roomId))]))
      else (w, []))"

definition handleTypingStop :: "socket \<Rightarrow> typing_payload \<Rightarrow> world \<Rightarrow> world \<times> emission list" where
  "handleTypingStop sock d w =
     (if tp_isPrivate d \<and> truthy (tp_recipientId d) then
        (let recipientId = str_of (tp_recipientId d);
             conversationKey = getConversationKey (userId sock) recipientId;
             w1 = w\<lparr>privateTyping := map_delete conversationKey (privateTyping w)\<rparr>
         in (w1, case map_get (onlineUsers w1) recipientId of
                   None \<Rightarrow> []
                 | Some rd \<Rightarrow> [(ToRoom (socketId rd), TypingStop (userId sock) Private)]))
      else if truthy (tp_roomId d) then
        (let roomId = str_of (tp_roomId d) in
         case map_get (typingUsers w) roomId of
           None \<Rightarrow> (w, [])
         | Some typingSet \<Rightarrow>
             (let typingSet' = set_delete (userId sock) typingSet;
                  tu = (if length typingSet' = 0 then map_delete roomId (typingUsers w)
                        else map_set roomId typingSet' (typingUsers w))
              in (w\<lparr>typingUsers := tu\<rparr>,
                  [(RoomExcept roomId (sock_id sock), TypingStop (userId sock) (InRoom roomId))])))
      else (w, []))"

definition TYPING_TIMEOUT :: int where
  "TYPING_TIMEOUT = 10000"

text \<open>
  \<^verbatim>\<open>cleanupTypingIndicators\<close>, run by \<^verbatim>\<open>setInterval(cleanupTypingIndicators, 30000)\<close>.
  The function has no access to \<^verbatim>\<open>io\<close> or to a socket and emits nothing.
\<close>

definition cleanupTypingIndicators :: "int \<Rightarrow> world \<Rightarrow> world \<times> emission list" where
  "cleanupTypingIndicators now w =
     (w\<lparr>typingUsers := filter (\<lambda>(roomId, users). \<not> length users = 0) (typingUsers w),
        privateTyping := filter (\<lambda>(conversationKey, typingData).
                                   \<not> now - startTime typingData > TYPING_TIMEOUT)
                                (privateTyping w)\<rparr>,
      [])"

definition SWEEP_INTERVAL :: int where
  "SWEEP_INTERVAL = 30000"

text \<open>The time of the \<open>k\<close>-th run of the sweep, for a timer installed at \<open>t_init\<close>.\<close>

definition sweepTime :: "int \<Rightarrow> nat \<Rightarrow> int" where
  "sweepTime t_init k = t_init + int k * SWEEP_INTERVAL"

subsection \<open>The gateway as a transition system\<close>

text \<open>
  One inbound signal is one step. On \<open>Connect\<close> socket.io has added the socket before
  the handler runs; on \<open>Disconnect\<close> it has removed the socket from every room.
\<close>

datatype inbound =
    Connect socket
  | Disconnect socket
  | JoinRoom socket "room_id option"
  | LeaveRoom socket "room_id option"
  | SendMessage socket send_payload msg_id
  | SendPrivateMessage socket private_payload msg_id
  | TypingStartEv socket typing_payload
  | TypingStopEv socket typing_payload
  | Sweep

fun step :: "int \<Rightarrow> inbound \<Rightarrow> world \<Rightarrow> world \<times> emission list" where
  "step now (Connect sock) w =
     handleConnection sock now (w\<lparr>sio_connected := insert (sock_id sock) (sio_connected w)\<rparr>)"
| "step now (Disconnect sock) w =
     handleDisconnection sock now
       (w\<lparr>sio_connected := sio_connected w - {sock_id sock},
          sio_joined := Set.filter (\<lambda>(r, s). s \<noteq> sock_id sock) (sio_joined w)\<rparr>)"
| "step now (JoinRoom sock roomId) w = handleJoinRoom sock roomId w"
| "step now (LeaveRoom sock roomId) w = handleLeaveRoom sock roomId w"
| "step now (SendMessage sock d mid) w = handleSendMessage sock d now mid w"
| "step now (SendPrivateMessage sock d mid) w = handleSendPrivateMessage sock d now mid w"
| "step now (TypingStartEv sock d) w = handleTypingStart sock d now w"
| "step now (TypingStopEv sock d) w = handleTypingStop sock d w"
| "step now Sweep w = cleanupTypingIndicators now w"

fun run :: "(int \<times> inbound) list \<Rightarrow> world \<Rightarrow> world" where
  "run [] w = w"
| "run ((now, ev) # evs) w = run evs (fst (step now ev w))"

text \<open>The state at start-up: empty maps, no socket, and a given store.\<close>

definition initial :: "user_doc list \<Rightarrow> room_doc list \<Rightarrow> message_doc list \<Rightarrow> world" where
  "initial us rs ms =
     \<lparr>onlineUsers = [], typingUsers = [], privateTyping = [],
      sio_connected = {}, sio_joined = {},
      db_users = us, db_rooms = rs, db_messages = ms\<rparr>"

subsection \<open>Observing emissions\<close>

text \<open>The kind of an event, for counting what a socket receives.\<close>

fun is_error :: "event \<Rightarrow> bool" where
  "is_error (Error _ _) = True"
| "is_error _ = False"

fun is_message_received :: "event \<Rightarrow> bool" where
  "is_message_received (MessageReceived _) = True"
| "is_message_received _ = False"

fun is_message_sent :: "event \<Rightarrow> bool" where
  "is_message_sent (MessageSent _ _) = True"
| "is_message_sent _ = False"

fun is_private_message_received :: "event \<Rightarrow> bool" where
  "is_private_message_received (PrivateMessageReceived _) = True"
| "is_private_message_received _ = False"

fun is_private_message_sent :: "event \<Rightarrow> bool" where
  "is_private_message_sent (PrivateMessageSent _ _) = True"
| "is_private_message_sent _ = False"

fun is_typing_stop :: "event \<Rightarrow> bool" where
  "is_typing_stop (TypingStop _ _) = True"
| "is_typing_stop _ = False"

fun is_user_offline_in_room :: "event \<Rightarrow> bool" where
  "is_user_offline_in_room (UserOffline _ (Some _)) = True"
| "is_user_offline_in_room _ = False"

text \<open>A handler run succeeded when it emitted no \<^verbatim>\<open>error\<close> event.\<close>

definition succeeded :: "emission list \<Rightarrow> bool" where
  "succeeded ems = list_all (\<lambda>e. \<not> is_error (snd e)) ems"

section \<open>Scenarios\<close>

text \<open>
  Three users, one active public room of which all three are members, and their sockets;
  \<open>sockA2\<close> is a second socket of the first user.
\<close>

definition users0 :: "user_doc list" where
  "users0 =
     [\<lparr>ud_id = ''u1'', ud_username = ''alice'', blockedUsers = [], isOnline = False, lastSeen = 0\<rparr>,
      \<lparr>ud_id = ''u2'', ud_username = ''bob'', blockedUsers = [], isOnline = False, lastSeen = 0\<rparr>,
      \<lparr>ud_id = ''u3'', ud_username = ''carol'', blockedUsers = [], isOnline = False, lastSeen = 0\<rparr>]"

definition rooms0 :: "room_doc list" where
  "rooms0 =
     [\<lparr>r_id = ''r1'', r_type = ''public'', creator = ''u1'',
       members = [''u1'', ''u2'', ''u3''], admins = [''u1''], isActive = True, muteAll = False,
       messageCount = 0, totalMessages = 0, lastActivity = 0\<rparr>]"

definition sockA :: socket where
  "sockA = \<lparr>sock_id = ''sA'', userId = ''u1'', sock_user = \<lparr>u_id = ''u1'', username = ''alice''\<rparr>\<rparr>"

definition sockA2 :: socket where
  "sockA2 = \<lparr>sock_id = ''sA2'', userId = ''u1'', sock_user = \<lparr>u_id = ''u1'', username = ''alice''\<rparr>\<rparr>"

definition sockB :: socket where
  "sockB = \<lparr>sock_id = ''sB'', userId = ''u2'', sock_user = \<lparr>u_id = ''u2'', username = ''bob''\<rparr>\<rparr>"

definition sockB2 :: socket where
  "sockB2 = \<lparr>sock_id = ''sB2'', userId = ''u2'', sock_user = \<lparr>u_id = ''u2'', username = ''bob''\<rparr>\<rparr>"

definition sockC :: socket where
  "sockC = \<lparr>sock_id = ''sC'', userId = ''u3'', sock_user = \<lparr>u_id = ''u3'', username = ''carol''\<rparr>\<rparr>"

text \<open>All three users connected; each socket has joined the room on connection.\<close>

definition wRoom :: world where
  "wRoom = run [(1, Connect sockA), (2, Connect sockB), (3, Connect sockC)]
               (initial users0 rooms0 [])"

text \<open>Only the first two users connected.\<close>

definition wTwo :: world where
  "wTwo = run [(1, Connect sockA), (2, Connect sockB)] (initial users0 rooms0 [])"

text \<open>The first user types in the room and to the second user, then connects again
  from a second socket, which supersedes the first in the registry.\<close>

definition wStale :: world where
  "wStale = run [(1, Connect sockA),
                 (2, TypingStartEv sockA \<lparr>tp_roomId = Some ''r1'', tp_isPrivate = False,
                                          tp_recipientId = None\<rparr>),
                 (3, TypingStartEv sockA \<lparr>tp_roomId = None, tp_isPrivate = True,
                                          tp_recipientId = Some ''u2''\<rparr>),
                 (4, Connect sockB),
                 (5, Connect sockA2)]
                (initial users0 rooms0 [])"

text \<open>A second, public room of which only the second user is a member, and the state
  with the first two users connected.\<close>

definition roomOpen :: room_doc where
  "roomOpen = \<lparr>r_id = ''r2'', r_type = ''public'', creator = ''u2'', members = [''u2''],
               admins = [''u2''], isActive = True, muteAll = False, messageCount = 0,
               totalMessages = 0, lastActivity = 0\<rparr>"

definition wOpen :: world where
  "wOpen = run [(1, Connect sockA), (2, Connect sockB)]
               (initial users0 (rooms0 @ [roomOpen]) [])"

text \<open>The second user opens a second socket and closes it again, while his first socket
  stays open: the registry has lost his entry.\<close>

definition wGhost :: world where
  "wGhost = run [(1, Connect sockA), (2, Connect sockB), (3, Connect sockB2),
                 (4, Disconnect sockB2)]
                (initial users0 rooms0 [])"

definition hiPayload :: send_payload where
  "hiPayload = \<lparr>sp_roomId = Some ''r1'', sp_content = Some (ascii '' hi ''), sp_type = None,
                sp_replyTo = None, sp_tempId = Some ''t1''\<rparr>"

definition badReplyPayload :: send_payload where
  "badReplyPayload = \<lparr>sp_roomId = Some ''r1'', sp_content = Some (ascii ''hi''), sp_type = None,
                      sp_replyTo = Some ''m9'', sp_tempId = Some ''t1''\<rparr>"

definition toBob :: private_payload where
  "toBob = \<lparr>pp_recipientId = Some ''u2'', pp_content = Some (ascii ''psst''), pp_type = None,
            pp_replyTo = None, pp_tempId = Some ''t2''\<rparr>"

definition toCarol :: private_payload where
  "toCarol = \<lparr>pp_recipientId = Some ''u3'', pp_content = Some (ascii ''psst''), pp_type = None,
              pp_replyTo = None, pp_tempId = Some ''t3''\<rparr>"

definition stopToBob :: typing_payload where
  "stopToBob = \<lparr>tp_roomId = None, tp_isPrivate = True, tp_recipientId = Some ''u2''\<rparr>"

definition stopToAlice :: typing_payload where
  "stopToAlice = \<lparr>tp_roomId = None, tp_isPrivate = True, tp_recipientId = Some ''u1''\<rparr>"

definition stopInRoom :: typing_payload where
  "stopInRoom = \<lparr>tp_roomId = Some ''r1'', tp_isPrivate = False, tp_recipientId = None\<rparr>"

text \<open>A room history of \<open>n\<close> messages, the \<open>i\<close>-th created at time \<open>i\<close>.\<close>

definition msgN :: "nat \<Rightarrow> message_doc" where
  "msgN i = \<lparr>m_id = replicate i (CHR ''m''), m_sender = ''u2'', m_room = Some ''r1'',
             m_recipient = None, m_content = ascii ''x'', m_type = ''text'', m_isPrivate = False,
             m_replyTo = None, m_isDeleted = False, m_createdAt = int i\<rparr>"

definition history :: "nat \<Rightarrow> message_doc list" where
  "history n = map msgN [1..<Suc n]"

section \<open>Properties\<close>

subsection \<open>Evaluating the scenarios\<close>

lemmas js_defs = map_get_def map_has_def map_set_def map_delete_def set_has_def set_add_def
  set_delete_def truthy_def str_of_def

lemmas scenario_defs = users0_def rooms0_def sockA_def sockA2_def sockB_def sockB2_def sockC_def
  initial_def

lemmas connect_defs = handleConnection_def sendOnlineUsersList_def broadcastUserStatus_def
  setUserStatus_def addUserRoom_def Let_def

lemmas disconnect_defs = handleDisconnection_def cleanupUserData_def cleanupRegistry_def
  broadcastUserStatus_def setUserStatus_def Let_def

lemmas create_defs = createMessage_def createMessage_room_def createMessage_reply_def
  createMessage_private_def validateMessageInput_def findUserById_def findRoomById_def
  findMessageById_def isMember_def isAdmin_def hasBlocked_def incrementMessageCount_def
  trim_def is_space_def ascii_def MESSAGE_TYPES_def MESSAGE_MAX_LENGTH_def type_or_text_def
  messageData_def
  Let_def

lemma wTwo_eq:
  "wTwo =
     \<lparr>onlineUsers =
        [(''u1'', \<lparr>socketId = ''sA'', ud_user = \<lparr>u_id = ''u1'', username = ''alice''\<rparr>,
                   connectedAt = 1, rooms = [''r1'']\<rparr>),
         (''u2'', \<lparr>socketId = ''sB'', ud_user = \<lparr>u_id = ''u2'', username = ''bob''\<rparr>,
                   connectedAt = 2, rooms = [''r1'']\<rparr>)],
      typingUsers = [], privateTyping = [],
      sio_connected = {''sB'', ''sA''},
      sio_joined = {(''r1'', ''sB''), (''r1'', ''sA'')},
      db_users =
        [\<lparr>ud_id = ''u1'', ud_username = ''alice'', blockedUsers = [], isOnline = True, lastSeen = 1\<rparr>,
         \<lparr>ud_id = ''u2'', ud_username = ''bob'', blockedUsers = [], isOnline = True, lastSeen = 2\<rparr>,
         \<lparr>ud_id = ''u3'', ud_username = ''carol'', blockedUsers = [], isOnline = False, lastSeen = 0\<rparr>],
      db_rooms = rooms0, db_messages = []\<rparr>"
  by (simp add: wTwo_def scenario_defs js_defs connect_defs)

lemma wRoom_eq:
  "wRoom =
     \<lparr>onlineUsers =
        [(''u1'', \<lparr>socketId = ''sA'', ud_user = \<lparr>u_id = ''u1'', username = ''alice''\<rparr>,
                   connectedAt = 1, rooms = [''r1'']\<rparr>),
         (''u2'', \<lparr>socketId = ''sB'', ud_user = \<lparr>u_id = ''u2'', username = ''bob''\<rparr>,
                   connectedAt = 2, rooms = [''r1'']\<rparr>),
         (''u3'', \<lparr>socketId = ''sC'', ud_user = \<lparr>u_id = ''u3'', username = ''carol''\<rparr>,
                   connectedAt = 3, rooms = [''r1'']\<rparr>)],
      typingUsers = [], privateTyping = [],
      sio_connected = {''sC'', ''sB'', ''sA''},
      sio_joined = {(''r1'', ''sC''), (''r1'', ''sB''), (''r1'', ''sA'')},
      db_users =
        [\<lparr>ud_id = ''u1'', ud_username = ''alice'', blockedUsers = [], isOnline = True, lastSeen = 1\<rparr>,
         \<lparr>ud_id = ''u2'', ud_username = ''bob'', blockedUsers = [], isOnline = True, lastSeen = 2\<rparr>,
         \<lparr>ud_id = ''u3'', ud_username = ''carol'', blockedUsers = [], isOnline = True, lastSeen = 3\<rparr>],
      db_rooms = rooms0, db_messages = []\<rparr>"
  by (simp add: wRoom_def scenario_defs js_defs connect_defs)

lemma wStale_eq:
  "wStale =
     \<lparr>onlineUsers =
        [(''u1'', \<lparr>socketId = ''sA2'', ud_user = \<lparr>u_id = ''u1'', username = ''alice''\<rparr>,
                   connectedAt = 5, rooms = [''r1'']\<rparr>),
         (''u2'', \<lparr>socketId = ''sB'', ud_user = \<lparr>u_id = ''u2'', username = ''bob''\<rparr>,
                   connectedAt = 4, rooms = [''r1'']\<rparr>)],
      typingUsers = [(''r1'', [''u1''])],
      privateTyping = [(''u1:u2'', \<lparr>td_userId = ''u1'', td_username = ''alice'', startTime = 3\<rparr>)],
      sio_connected = {''sA2'', ''sB'', ''sA''},
      sio_joined = {(''r1'', ''sA2''), (''r1'', ''sB''), (''r1'', ''sA'')},
      db_users =
        [\<lparr>ud_id = ''u1'', ud_username = ''alice'', blockedUsers = [], isOnline = True, lastSeen = 5\<rparr>,
         \<lparr>ud_id = ''u2'', ud_username = ''bob'', blockedUsers = [], isOnline = True, lastSeen = 4\<rparr>,
         \<lparr>ud_id = ''u3'', ud_username = ''carol'', blockedUsers = [], isOnline = False, lastSeen = 0\<rparr>],
      db_rooms = rooms0, db_messages = []\<rparr>"
  by (simp add: wStale_def scenario_defs js_defs connect_defs handleTypingStart_def
        getConversationKey_def)

lemma wGhost_eq:
  "wGhost =
     \<lparr>onlineUsers =
        [(''u1'', \<lparr>socketId = ''sA'', ud_user = \<lparr>u_id = ''u1'', username = ''alice''\<rparr>,
                   connectedAt = 1, rooms = [''r1'']\<rparr>)],
      typingUsers = [], privateTyping = [],
      sio_connected = {''sB'', ''sA''},
      sio_joined = {(''r1'', ''sB''), (''r1'', ''sA'')},
      db_users =
        [\<lparr>ud_id = ''u1'', ud_username = ''alice'', blockedUsers = [], isOnline = True, lastSeen = 1\<rparr>,
         \<lparr>ud_id = ''u2'', ud_username = ''bob'', blockedUsers = [], isOnline = False, lastSeen = 4\<rparr>,
         \<lparr>ud_id = ''u3'', ud_username = ''carol'', blockedUsers = [], isOnline = False, lastSeen = 0\<rparr>],
      db_rooms = rooms0, db_messages = []\<rparr>"
  by (auto simp add: wGhost_def scenario_defs js_defs connect_defs disconnect_defs)

subsection \<open>Access to private rooms\<close>

text \<open>
  The string of a member document is never an id, which does not open with a brace: the
  member test of \<^verbatim>\<open>getRoomById\<close> fails for every user, and an active private room
  refuses its own members.
\<close>

lemma isMember_populated_id:
  "hd uid \<noteq> CHR ''{'' \<Longrightarrow> \<not> isMember_populated docs uid"
  by (auto simp: isMember_populated_def doc_toString_def list_ex_iff)

lemma getRoomById_private:
  assumes "findRoomById roomId w = Some room" "isActive room" "r_type room = ''private''"
    and "uid \<noteq> []" "hd uid \<noteq> CHR ''{''"
  shows "getRoomById roomId uid w = Inl ''You do not have access to this room''"
  using assms by (simp add: getRoomById_def isMember_populated_id)

subsection \<open>Frame lemmas\<close>

lemma createMessage_room_frame:
  "createMessage_room p now w = (w1, e) \<Longrightarrow>
     onlineUsers w1 = onlineUsers w \<and> typingUsers w1 = typingUsers w \<and>
     privateTyping w1 = privateTyping w \<and> sio_connected w1 = sio_connected w \<and>
     sio_joined w1 = sio_joined w \<and> db_users w1 = db_users w \<and> db_messages w1 = db_messages w"
  by (auto simp: createMessage_room_def incrementMessageCount_def split: option.splits if_splits)

lemma createMessage_frame:
  "createMessage p now mid w = (w1, r) \<Longrightarrow>
     onlineUsers w1 = onlineUsers w \<and> typingUsers w1 = typingUsers w \<and>
     privateTyping w1 = privateTyping w \<and> sio_connected w1 = sio_connected w \<and>
     sio_joined w1 = sio_joined w \<and> db_users w1 = db_users w"
  by (auto simp: createMessage_def Let_def split: option.splits prod.splits if_splits
           dest!: createMessage_room_frame)

lemma ou_handleSendMessage:
  "onlineUsers (fst (handleSendMessage sock d now mid w)) = onlineUsers w"
  by (auto simp: handleSendMessage_def Let_def split: option.splits prod.splits sum.splits
           dest!: createMessage_frame)

lemma ou_handleSendPrivateMessage:
  "onlineUsers (fst (handleSendPrivateMessage sock d now mid w)) = onlineUsers w"
  by (auto simp: handleSendPrivateMessage_def Let_def split: option.splits prod.splits sum.splits
           dest!: createMessage_frame)

lemma ou_handleTypingStart: "onlineUsers (fst (handleTypingStart sock d now w)) = onlineUsers w"
  by (auto simp: handleTypingStart_def Let_def split: option.splits)

lemma ou_handleTypingStop: "onlineUsers (fst (handleTypingStop sock d w)) = onlineUsers w"
  by (auto simp: handleTypingStop_def Let_def split: option.splits)

lemma ou_cleanupTypingIndicators:
  "onlineUsers (fst (cleanupTypingIndicators now w)) = onlineUsers w"
  by (simp add: cleanupTypingIndicators_def)

subsection \<open>The registry has one entry per user\<close>

lemma keys_addUserRoom: "map fst (addUserRoom uid r ou) = map fst ou"
  by (auto simp: addUserRoom_def map_set_def map_get_def update_keys map_idI map_of_eq_None_iff
           split: option.splits)

lemma keys_deleteUserRoom: "map fst (deleteUserRoom uid r ou) = map fst ou"
  by (auto simp: deleteUserRoom_def map_set_def map_get_def update_keys map_idI map_of_eq_None_iff
           split: option.splits)

lemma fst_joinUserRooms_Cons:
  "fst (joinUserRooms sock (room # rest) w) =
     fst (joinUserRooms sock rest
            (w\<lparr>sio_joined := insert (r_id room, sock_id sock) (sio_joined w),
               onlineUsers := addUserRoom (userId sock) (r_id room) (onlineUsers w)\<rparr>))"
  by (simp add: Let_def split: prod.splits)

lemma keys_joinUserRooms:
  "map fst (onlineUsers (fst (joinUserRooms sock rs w))) = map fst (onlineUsers w)"
proof (induction rs arbitrary: w)
  case Nil
  show ?case by simp
next
  case (Cons room rest)
  show ?case
    unfolding fst_joinUserRooms_Cons by (simp add: Cons.IH keys_addUserRoom)
qed

lemma fst_handleConnection:
  "fst (handleConnection sock now w) =
     fst (joinUserRooms sock
            (filter (\<lambda>r. userId sock \<in> set (members r) \<and> isActive r) (db_rooms w))
            (w\<lparr>onlineUsers :=
                 map_set (userId sock)
                   \<lparr>socketId = sock_id sock, ud_user = sock_user sock,
                    connectedAt = now, rooms = []\<rparr>
                   (onlineUsers w),
               db_users := setUserStatus (userId sock) True now (db_users w)\<rparr>))"
  by (simp add: handleConnection_def Let_def case_prod_unfold)

lemma distinct_handleConnection:
  "distinct (map fst (onlineUsers w)) \<Longrightarrow>
     distinct (map fst (onlineUsers (fst (handleConnection sock now w))))"
  unfolding fst_handleConnection keys_joinUserRooms
  by (simp add: map_set_def distinct_update)

lemma distinct_cleanupRegistry:
  "distinct (map fst ou) \<Longrightarrow> distinct (map fst (cleanupRegistry uid sid ou))"
  by (auto simp: cleanupRegistry_def map_delete_def distinct_delete split: option.splits)

lemma distinct_handleDisconnection:
  "distinct (map fst (onlineUsers w)) \<Longrightarrow>
     distinct (map fst (onlineUsers (fst (handleDisconnection sock now w))))"
  by (simp add: handleDisconnection_def Let_def cleanupUserData_def distinct_cleanupRegistry)

lemma keys_handleJoinRoom:
  "map fst (onlineUsers (fst (handleJoinRoom sock r w))) = map fst (onlineUsers w)"
  by (auto simp: handleJoinRoom_def Let_def keys_addUserRoom split: sum.splits prod.splits)

lemma keys_handleLeaveRoom:
  "map fst (onlineUsers (fst (handleLeaveRoom sock r w))) = map fst (onlineUsers w)"
  by (auto simp: handleLeaveRoom_def Let_def keys_deleteUserRoom split: option.splits prod.splits)

lemma distinct_step:
  assumes "distinct (map fst (onlineUsers w))"
  shows "distinct (map fst (onlineUsers (fst (step now ev w))))"
proof (cases ev)
  case (Connect sock)
  then show ?thesis using assms
      distinct_handleConnection[of "w\<lparr>sio_connected := insert (sock_id sock) (sio_connected w)\<rparr>" sock now]
    by simp
next
  case (Disconnect sock)
  then show ?thesis using assms
      distinct_handleDisconnection[of "w\<lparr>sio_connected := sio_connected w - {sock_id sock},
          sio_joined := Set.filter (\<lambda>(r, s). s \<noteq> sock_id sock) (sio_joined w)\<rparr>" sock now]
    by simp
qed (simp_all add: assms keys_handleJoinRoom keys_handleLeaveRoom ou_handleSendMessage
       ou_handleSendPrivateMessage ou_handleTypingStart ou_handleTypingStop
       ou_cleanupTypingIndicators)

lemma distinct_run:
  "distinct (map fst (onlineUsers w)) \<Longrightarrow> distinct (map fst (onlineUsers (run evs w)))"
  by (induction evs arbitrary: w) (auto simp: distinct_step)

lemma distinct_keys_count:
  "distinct (map fst m) \<Longrightarrow> length (filter (\<lambda>e. fst e = k) m) \<le> 1"
  by (induction m) (auto simp: filter_empty_conv image_iff)

lemma get_addUserRoom:
  "map_option socketId (map_get (addUserRoom uid r ou) u) = map_option socketId (map_get ou u)"
  by (auto simp: addUserRoom_def map_set_def map_get_def update_conv' split: option.splits)

lemma socketId_joinUserRooms:
  "map_option socketId (map_get (onlineUsers (fst (joinUserRooms sock rs w))) u)
     = map_option socketId (map_get (onlineUsers w) u)"
proof (induction rs arbitrary: w)
  case Nil
  show ?case by simp
next
  case (Cons room rest)
  show ?case
    unfolding fst_joinUserRooms_Cons by (simp add: Cons.IH get_addUserRoom)
qed

lemma socketId_handleConnection:
  "map_option socketId (map_get (onlineUsers (fst (handleConnection sock now w))) (userId sock))
     = Some (sock_id sock)"
  unfolding fst_handleConnection socketId_joinUserRooms
  by (simp add: map_set_def map_get_def update_conv')

text \<open>
  Claim C3. From start-up and after any sequence of inbound signals (connections,
  disconnections and every other handler, in any order and for any sockets), the keys of
  the connection registry are distinct, so the registry holds at most one entry for any
  user \<open>U\<close>. Registering a further connection \<open>sock\<close> leaves exactly one entry for its
  user, and that entry records the new socket: it replaces whatever entry was there.
\<close>

theorem single_connection:
  "distinct (map fst (onlineUsers (run evs (initial us rs ms))))
   \<and> length (filter (\<lambda>e. fst e = U) (onlineUsers (run evs (initial us rs ms)))) \<le> 1
   \<and> map_option socketId
        (map_get (onlineUsers (fst (step now (Connect sock) (run evs (initial us rs ms)))))
           (userId sock)) = Some (sock_id sock)
   \<and> length (filter (\<lambda>e. fst e = userId sock)
        (onlineUsers (fst (step now (Connect sock) (run evs (initial us rs ms)))))) = 1"
proof -
  let ?w = "run evs (initial us rs ms)"
  let ?w' = "fst (step now (Connect sock) ?w)"
  let ?own = "filter (\<lambda>e. fst e = userId sock) (onlineUsers ?w')"
  have d: "distinct (map fst (onlineUsers ?w))"
    by (rule distinct_run) (simp add: initial_def)
  have d': "distinct (map fst (onlineUsers ?w'))"
    using d by (rule distinct_step)
  have s: "map_option socketId (map_get (onlineUsers ?w') (userId sock)) = Some (sock_id sock)"
    by (simp add: socketId_handleConnection)
  then have "userId sock \<in> fst ` set (onlineUsers ?w')"
    by (auto simp: map_get_def simp del: step.simps dest!: map_of_SomeD intro: rev_image_eqI)
  then have "?own \<noteq> []"
    by (force simp: filter_empty_conv simp del: step.simps)
  then have "length ?own \<ge> 1"
    by (cases ?own) simp_all
  with distinct_keys_count[OF d', of "userId sock"]
  have "length ?own = 1" by linarith
  with d s distinct_keys_count[OF d, of U] show ?thesis by blast
qed

text \<open>
  Witness for C3: with the first two users connected, a second socket of the first user
  connects; the registry then holds one entry for her, recording the second socket.
\<close>

theorem single_connection_witness:
  "distinct (map fst (onlineUsers wTwo))
   \<and> length (filter (\<lambda>e. fst e = ''u1'') (onlineUsers wTwo)) \<le> 1
   \<and> map_option socketId (map_get (onlineUsers (fst (step 7 (Connect sockA2) wTwo))) ''u1'')
       = Some ''sA2''
   \<and> length (filter (\<lambda>e. fst e = ''u1'') (onlineUsers (fst (step 7 (Connect sockA2) wTwo)))) = 1"
  using single_connection[of "[(1, Connect sockA), (2, Connect sockB)]" users0 rooms0 "[]"
          "''u1''" 7 sockA2]
  by (simp add: wTwo_def sockA2_def)

subsection \<open>Cleanup on disconnect\<close>

lemma cleanupTypingSets_clear:
  "(r, ts) \<in> set (cleanupTypingSets uid tu) \<Longrightarrow> uid \<notin> set ts"
  by (induction uid tu rule: cleanupTypingSets.induct)
     (auto simp: Let_def set_has_def set_delete_def split: if_splits)

lemma cleanupPrivateTyping_clear:
  "(k, td) \<in> set (cleanupPrivateTyping uid pt) \<Longrightarrow> td_userId td \<noteq> uid"
  by (induction uid pt rule: cleanupPrivateTyping.induct) (auto split: if_splits)

lemma get_cleanupRegistry:
  "map_get (cleanupRegistry uid sid ou) u =
     (case map_get ou u of
        None \<Rightarrow> None
      | Some d \<Rightarrow> if u = uid \<and> socketId d = sid then None else Some d)"
  by (auto simp: cleanupRegistry_def map_has_def map_get_def map_delete_def delete_conv'
           split: option.splits)

text \<open>
  Claim C10. When an authenticated socket disconnects, the lookup of every user in the
  registry is unchanged, except that the entry of the socket's own user is removed when,
  and only when, it records the id of the disconnecting socket. So a stale or repeated
  disconnect of a superseded socket leaves the newer connection's entry, room set
  included, as it was. Whatever the registry holds, after the handler no room typing set
  contains the user and no private typing session has the user as its typist.
\<close>

theorem stale_disconnect_guard:
  "userId sock \<noteq> [] \<Longrightarrow>
     (\<forall>u. map_get (onlineUsers (fst (handleDisconnection sock now w))) u =
            (case map_get (onlineUsers w) u of
               None \<Rightarrow> None
             | Some d \<Rightarrow> if u = userId sock \<and> socketId d = sock_id sock then None else Some d))
     \<and> (\<forall>r ts. (r, ts) \<in> set (typingUsers (fst (handleDisconnection sock now w)))
                 \<longrightarrow> userId sock \<notin> set ts)
     \<and> (\<forall>k td. (k, td) \<in> set (privateTyping (fst (handleDisconnection sock now w)))
                 \<longrightarrow> td_userId td \<noteq> userId sock)"
  by (auto simp: handleDisconnection_def Let_def cleanupUserData_def get_cleanupRegistry
           dest: cleanupTypingSets_clear cleanupPrivateTyping_clear)

text \<open>
  Witness for C10: in \<open>wStale\<close> the registry entry of the first user records her second
  socket. The disconnect of the superseded first socket leaves that entry, with its room
  set, in place and clears her typing state; the disconnect of the second socket removes
  the entry.
\<close>

theorem stale_disconnect_guard_witness:
  "userId sockA \<noteq> []
   \<and> map_get (onlineUsers wStale) ''u1''
       = Some \<lparr>socketId = ''sA2'', ud_user = \<lparr>u_id = ''u1'', username = ''alice''\<rparr>,
               connectedAt = 5, rooms = [''r1'']\<rparr>
   \<and> map_get (onlineUsers (fst (handleDisconnection sockA 9 wStale))) ''u1''
       = Some \<lparr>socketId = ''sA2'', ud_user = \<lparr>u_id = ''u1'', username = ''alice''\<rparr>,
               connectedAt = 5, rooms = [''r1'']\<rparr>
   \<and> map_get (onlineUsers (fst (handleDisconnection sockA2 9 wStale))) ''u1'' = None
   \<and> typingUsers (fst (handleDisconnection sockA 9 wStale)) = []
   \<and> privateTyping (fst (handleDisconnection sockA 9 wStale)) = []"
  using stale_disconnect_guard[of sockA 9 wStale] stale_disconnect_guard[of sockA2 9 wStale]
  by (simp add: wStale_eq sockA_def sockA2_def js_defs disconnect_defs)

subsection \<open>Presence events on disconnect\<close>

text \<open>
  Claim C6 asks for a room-scoped \<^verbatim>\<open>user_offline\<close> event to each room the connection had
  joined, from the room set as it was before unregistration. The handler reads the
  registry after \<^verbatim>\<open>cleanupUserData\<close> has deleted the entry. In \<open>wRoom\<close> the first user is
  registered with room set \<open>[r1]\<close>, and the sockets of two other users are in that room;
  when her socket disconnects the only emission is the global \<^verbatim>\<open>user_offline\<close>: no
  room-scoped event is emitted.
\<close>

theorem disconnect_skips_room_offline:
  "map_option rooms (map_get (onlineUsers wRoom) ''u1'') = Some [''r1'']
   \<and> map_option socketId (map_get (onlineUsers wRoom) ''u1'') = Some (sock_id sockA)
   \<and> room_sockets wRoom ''r1'' = {''sA'', ''sB'', ''sC''}
   \<and> snd (step 9 (Disconnect sockA) wRoom) = [(Everyone, UserOffline ''u1'' None)]
   \<and> filter is_user_offline_in_room (map snd (snd (step 9 (Disconnect sockA) wRoom))) = []"
  by (auto simp add: wRoom_eq sockA_def js_defs disconnect_defs room_sockets_def)

text \<open>
  From the evaluation for C6: the sockets of the other two members of the room each
  receive the global \<^verbatim>\<open>user_offline\<close> and nothing else.
\<close>

theorem disconnect_skips_room_offline_witness:
  "received (fst (step 9 (Disconnect sockA) wRoom)) (snd (step 9 (Disconnect sockA) wRoom)) ''sB''
     = [UserOffline ''u1'' None]
   \<and> received (fst (step 9 (Disconnect sockA) wRoom)) (snd (step 9 (Disconnect sockA) wRoom)) ''sC''
     = [UserOffline ''u1'' None]"
  using disconnect_skips_room_offline
  by (simp add: received_def wRoom_eq sockA_def js_defs disconnect_defs)

text \<open>
  Claim C7 asks that a disconnect emits the offline presence only when the socket is
  still the registered one. The handler calls \<^verbatim>\<open>broadcastUserStatus\<close> (and sets
  \<^verbatim>\<open>isOnline: false\<close> in the store) without that test. In \<open>wStale\<close> the first user is
  registered with her second socket; the disconnect of her superseded first socket
  emits the global \<^verbatim>\<open>user_offline\<close> for her, and a room-scoped one for the rooms of the
  newer connection, while her entry stays in the registry.
\<close>

theorem stale_disconnect_broadcasts_offline:
  "map_option socketId (map_get (onlineUsers wStale) ''u1'') = Some ''sA2''
   \<and> snd (step 9 (Disconnect sockA) wStale)
       = [(Everyone, UserOffline ''u1'' None),
          (RoomExcept ''r1'' ''sA'', UserOffline ''u1'' (Some ''r1''))]
   \<and> map_option socketId (map_get (onlineUsers (fst (step 9 (Disconnect sockA) wStale))) ''u1'')
       = Some ''sA2''
   \<and> map isOnline (filter (\<lambda>u. ud_id u = ''u1'') (db_users (fst (step 9 (Disconnect sockA) wStale))))
       = [False]"
  by (simp add: wStale_eq sockA_def js_defs disconnect_defs)

text \<open>
  From the evaluation for C7: the second user's socket receives both offline events for
  the first user, who is still in the registry.
\<close>

theorem stale_disconnect_broadcasts_offline_witness:
  "map_has (onlineUsers (fst (step 9 (Disconnect sockA) wStale))) ''u1''
   \<and> received (fst (step 9 (Disconnect sockA) wStale)) (snd (step 9 (Disconnect sockA) wStale)) ''sB''
     = [UserOffline ''u1'' None, UserOffline ''u1'' (Some ''r1'')]"
  using stale_disconnect_broadcasts_offline
  by (auto simp add: received_def room_sockets_def wStale_eq sockA_def js_defs disconnect_defs)

subsection \<open>Room messages\<close>

lemma last_dropWhile: "dropWhile P xs \<noteq> [] \<Longrightarrow> last (dropWhile P xs) = last xs"
  by (metis last_appendR takeWhile_dropWhile_id)

text \<open>Trimming twice is trimming once: the handler trims the content and the service
  trims it again.\<close>

lemma trim_trim: "trim (trim s) = trim s"
proof (cases "dropWhile is_space s = []")
  case True
  then have t: "trim s = []"
    by (simp add: trim_def del: dropWhile_eq_Nil_conv)
  show ?thesis
    by (simp only: t) (simp add: trim_def)
next
  case False
  let ?a = "dropWhile is_space s"
  let ?b = "dropWhile is_space (rev ?a)"
  have ha: "\<not> is_space (hd ?a)" using False by (rule hd_dropWhile)
  have "hd ?a \<in> set (rev ?a)" using False by simp
  with ha have b: "?b \<noteq> []" by auto
  then have "last ?b = last (rev ?a)" by (rule last_dropWhile)
  also have "\<dots> = hd ?a" using False by (simp add: last_rev)
  finally have "hd (rev ?b) = hd ?a" using b by (simp add: hd_rev)
  with ha have "dropWhile is_space (rev ?b) = rev ?b"
    by (simp add: dropWhile_eq_self_iff)
  then show ?thesis by (simp add: trim_def)
qed

lemma createMessage_Inr:
  "createMessage p now mid w = (w1, Inr (message, senderUser)) \<Longrightarrow>
     m_id message = mid \<and> ud_id senderUser = cp_sender p \<and> m_createdAt message = now
     \<and> m_content message = trim (cp_content p)
     \<and> db_messages w1 = db_messages w @ [message]
     \<and> onlineUsers w1 = onlineUsers w \<and> typingUsers w1 = typingUsers w
     \<and> privateTyping w1 = privateTyping w \<and> sio_connected w1 = sio_connected w
     \<and> sio_joined w1 = sio_joined w"
  by (auto simp: createMessage_def Let_def findUserById_def find_Some_iff
           split: option.splits prod.splits if_splits dest!: createMessage_room_frame)

text \<open>What a successful room send emits: the broadcast, the acknowledgment and, when
  the sender was typing in the room, the implicit typing stop.\<close>

lemma handleSendMessage_success:
  assumes "handleSendMessage sock d now mid w = (w', ems)" and "succeeded ems"
  shows "\<exists>md. md_id md = mid \<and> md_sender md = userId sock
              \<and> md_roomId md = Some (str_of (sp_roomId d)) \<and> md_timestamp md = now
              \<and> md_content md = trim (str_of (sp_content d))
              \<and> (ems = [(RoomExcept (str_of (sp_roomId d)) (sock_id sock), MessageReceived md),
                        (ToSocket (sock_id sock), MessageSent (sp_tempId d) md)]
                 \<or> ems = [(RoomExcept (str_of (sp_roomId d)) (sock_id sock), MessageReceived md),
                          (ToSocket (sock_id sock), MessageSent (sp_tempId d) md),
                          (RoomExcept (str_of (sp_roomId d)) (sock_id sock),
                           TypingStop (userId sock) (InRoom (str_of (sp_roomId d))))])
              \<and> sio_connected w' = sio_connected w \<and> sio_joined w' = sio_joined w"
  using assms
  by (auto simp: handleSendMessage_def succeeded_def Let_def messageData_def trim_trim
           split: if_splits prod.splits sum.splits option.splits
           dest!: createMessage_Inr)

lemma room_sockets_cong:
  "sio_connected w' = sio_connected w \<Longrightarrow> sio_joined w' = sio_joined w \<Longrightarrow>
     room_sockets w' r = room_sockets w r"
  by (simp add: room_sockets_def)

text \<open>
  Claim C1 counts per user: the sender \<open>U\<close> receives no \<^verbatim>\<open>message_received\<close> and every
  other member exactly one. \<^verbatim>\<open>handleConnection\<close> overwrites the registry entry of a user
  who connects again but never closes her older socket, which stays in its rooms, and
  \<^verbatim>\<open>socket.to(roomId)\<close> leaves out the sending socket only. In \<open>wStale\<close> the first user
  has two open sockets in the room. When her newer socket sends, her older socket
  receives a \<^verbatim>\<open>message_received\<close> for her own message; when the second user sends, she
  receives one on each of her two sockets.
\<close>

theorem room_fanout_per_user_counterexample:
  "userId sockA = ''u1'' \<and> userId sockA2 = ''u1''
   \<and> ''sA'' \<in> room_sockets wStale ''r1'' \<and> ''sA2'' \<in> room_sockets wStale ''r1''
   \<and> succeeded (snd (handleSendMessage sockA2 hiPayload 10 ''m1'' wStale))
   \<and> filter is_message_received
        (received (fst (handleSendMessage sockA2 hiPayload 10 ''m1'' wStale))
                  (snd (handleSendMessage sockA2 hiPayload 10 ''m1'' wStale)) ''sA'')
       = [MessageReceived
            \<lparr>md_id = ''m1'', md_content = ascii ''hi'', md_type = ''text'', md_sender = ''u1'',
             md_sender_name = ''alice'', md_roomId = Some ''r1'', md_recipientId = None,
             md_replyTo = None, md_timestamp = 10\<rparr>]
   \<and> succeeded (snd (handleSendMessage sockB hiPayload 10 ''m1'' wStale))
   \<and> filter is_message_received
        (received (fst (handleSendMessage sockB hiPayload 10 ''m1'' wStale))
                  (snd (handleSendMessage sockB hiPayload 10 ''m1'' wStale)) ''sA'')
       = [MessageReceived
            \<lparr>md_id = ''m1'', md_content = ascii ''hi'', md_type = ''text'', md_sender = ''u2'',
             md_sender_name = ''bob'', md_roomId = Some ''r1'', md_recipientId = None,
             md_replyTo = None, md_timestamp = 10\<rparr>]
   \<and> filter is_message_received
        (received (fst (handleSendMessage sockB hiPayload 10 ''m1'' wStale))
                  (snd (handleSendMessage sockB hiPayload 10 ''m1'' wStale)) ''sA2'')
       = [MessageReceived
            \<lparr>md_id = ''m1'', md_content = ascii ''hi'', md_type = ''text'', md_sender = ''u2'',
             md_sender_name = ''bob'', md_roomId = Some ''r1'', md_recipientId = None,
             md_replyTo = None, md_timestamp = 10\<rparr>]"
  by (simp add: wStale_eq rooms0_def sockA_def sockA2_def sockB_def hiPayload_def
        handleSendMessage_def js_defs create_defs succeeded_def received_def room_sockets_def)

text \<open>
  Claim C1, amended: the count is per connection. Let a connected socket send a room
  message to room \<open>R\<close> and let the send succeed (no \<^verbatim>\<open>error\<close> event). There is one
  payload \<open>md\<close>, with the id of the new message, the sender's user id and the trimmed
  content, such that: every connected socket in \<open>R\<close> other than the sending socket, any
  other open socket of the sender included, receives exactly one \<^verbatim>\<open>message_received\<close>,
  carrying \<open>md\<close>; the sending socket receives exactly one \<^verbatim>\<open>message_sent\<close>, carrying the
  client's \<^verbatim>\<open>tempId\<close> unchanged and \<open>md\<close>, and no \<^verbatim>\<open>message_received\<close>; no other socket
  receives a \<^verbatim>\<open>message_sent\<close>, and no socket outside \<open>R\<close> receives a
  \<^verbatim>\<open>message_received\<close>.
\<close>

theorem room_fanout:
  assumes "handleSendMessage sock d now mid w = (w', ems)"
      and "succeeded ems"
      and "sock_id sock \<in> sio_connected w"
  shows "\<exists>md. md_id md = mid \<and> md_sender md = userId sock
           \<and> md_roomId md = Some (str_of (sp_roomId d))
           \<and> md_content md = trim (str_of (sp_content d))
           \<and> (\<forall>s \<in> room_sockets w (str_of (sp_roomId d)). s \<noteq> sock_id sock \<longrightarrow>
                 filter is_message_received (received w' ems s) = [MessageReceived md])
           \<and> filter is_message_sent (received w' ems (sock_id sock))
                 = [MessageSent (sp_tempId d) md]
           \<and> filter is_message_received (received w' ems (sock_id sock)) = []
           \<and> (\<forall>s. s \<noteq> sock_id sock \<longrightarrow> filter is_message_sent (received w' ems s) = [])
           \<and> (\<forall>s. s \<notin> room_sockets w (str_of (sp_roomId d)) \<longrightarrow>
                 filter is_message_received (received w' ems s) = [])"
proof -
  from handleSendMessage_success[OF assms(1,2)] obtain md where
    md: "md_id md = mid" "md_sender md = userId sock" "md_roomId md = Some (str_of (sp_roomId d))"
        "md_content md = trim (str_of (sp_content d))"
    and ems: "ems = [(RoomExcept (str_of (sp_roomId d)) (sock_id sock), MessageReceived md),
                        (ToSocket (sock_id sock), MessageSent (sp_tempId d) md)]
                 \<or> ems = [(RoomExcept (str_of (sp_roomId d)) (sock_id sock), MessageReceived md),
                          (ToSocket (sock_id sock), MessageSent (sp_tempId d) md),
                          (RoomExcept (str_of (sp_roomId d)) (sock_id sock),
                           TypingStop (userId sock) (InRoom (str_of (sp_roomId d))))]"
    and sio: "sio_connected w' = sio_connected w" "sio_joined w' = sio_joined w"
    by blast
  have rs: "room_sockets w' r = room_sockets w r" for r
    using sio by (rule room_sockets_cong)
  have "(\<forall>s \<in> room_sockets w (str_of (sp_roomId d)). s \<noteq> sock_id sock \<longrightarrow>
                 filter is_message_received (received w' ems s) = [MessageReceived md])
           \<and> filter is_message_sent (received w' ems (sock_id sock))
                 = [MessageSent (sp_tempId d) md]
           \<and> filter is_message_received (received w' ems (sock_id sock)) = []
           \<and> (\<forall>s. s \<noteq> sock_id sock \<longrightarrow> filter is_message_sent (received w' ems s) = [])
           \<and> (\<forall>s. s \<notin> room_sockets w (str_of (sp_roomId d)) \<longrightarrow>
                 filter is_message_received (received w' ems s) = [])"
    using ems assms(3) by (auto simp: received_def rs sio)
  with md show ?thesis by blast
qed

lemma send_hi:
  "handleSendMessage sockA hiPayload 10 ''m1'' wRoom =
     (wRoom\<lparr>db_rooms :=
               [\<lparr>r_id = ''r1'', r_type = ''public'', creator = ''u1'',
                 members = [''u1'', ''u2'', ''u3''], admins = [''u1''], isActive = True,
                 muteAll = False, messageCount = 1, totalMessages = 1, lastActivity = 10\<rparr>],
             db_messages :=
               [\<lparr>m_id = ''m1'', m_sender = ''u1'', m_room = Some ''r1'', m_recipient = None,
                 m_content = ascii ''hi'', m_type = ''text'', m_isPrivate = False, m_replyTo = None,
                 m_isDeleted = False, m_createdAt = 10\<rparr>]\<rparr>,
      [(RoomExcept ''r1'' ''sA'',
        MessageReceived
          \<lparr>md_id = ''m1'', md_content = ascii ''hi'', md_type = ''text'', md_sender = ''u1'',
           md_sender_name = ''alice'', md_roomId = Some ''r1'', md_recipientId = None,
           md_replyTo = None, md_timestamp = 10\<rparr>),
       (ToSocket ''sA'',
        MessageSent (Some ''t1'')
          \<lparr>md_id = ''m1'', md_content = ascii ''hi'', md_type = ''text'', md_sender = ''u1'',
           md_sender_name = ''alice'', md_roomId = Some ''r1'', md_recipientId = None,
           md_replyTo = None, md_timestamp = 10\<rparr>)])"
  by (simp add: wRoom_eq rooms0_def sockA_def hiPayload_def handleSendMessage_def js_defs
        create_defs)

text \<open>
  Witness for C1: with the three users connected and in the room, the first sends
  \<open>'' hi ''\<close> with \<^verbatim>\<open>tempId\<close> \<open>''t1''\<close>. The other two sockets each receive one
  \<^verbatim>\<open>message_received\<close>; the sender's socket receives one \<^verbatim>\<open>message_sent\<close> with
  \<open>''t1''\<close> and no \<^verbatim>\<open>message_received\<close>.
\<close>

theorem room_fanout_witness:
  "succeeded (snd (handleSendMessage sockA hiPayload 10 ''m1'' wRoom))
   \<and> sock_id sockA \<in> sio_connected wRoom
   \<and> room_sockets wRoom ''r1'' = {''sA'', ''sB'', ''sC''}
   \<and> (\<exists>md. md_id md = ''m1'' \<and> md_content md = ascii ''hi''
         \<and> filter is_message_received
              (received (fst (handleSendMessage sockA hiPayload 10 ''m1'' wRoom))
                        (snd (handleSendMessage sockA hiPayload 10 ''m1'' wRoom)) ''sB'')
             = [MessageReceived md]
         \<and> filter is_message_received
              (received (fst (handleSendMessage sockA hiPayload 10 ''m1'' wRoom))
                        (snd (handleSendMessage sockA hiPayload 10 ''m1'' wRoom)) ''sC'')
             = [MessageReceived md]
         \<and> filter is_message_sent
              (received (fst (handleSendMessage sockA hiPayload 10 ''m1'' wRoom))
                        (snd (handleSendMessage sockA hiPayload 10 ''m1'' wRoom)) ''sA'')
             = [MessageSent (Some ''t1'') md]
         \<and> filter is_message_received
              (received (fst (handleSendMessage sockA hiPayload 10 ''m1'' wRoom))
                        (snd (handleSendMessage sockA hiPayload 10 ''m1'' wRoom)) ''sA'')
             = [])"
proof -
  have h1: "handleSendMessage sockA hiPayload 10 ''m1'' wRoom
      = (fst (handleSendMessage sockA hiPayload 10 ''m1'' wRoom),
         snd (handleSendMessage sockA hiPayload 10 ''m1'' wRoom))"
    by simp
  have h2: "succeeded (snd (handleSendMessage sockA hiPayload 10 ''m1'' wRoom))"
    by (simp add: send_hi succeeded_def)
  have h3: "sock_id sockA \<in> sio_connected wRoom"
    by (simp add: wRoom_eq sockA_def)
  have rs: "room_sockets wRoom ''r1'' = {''sA'', ''sB'', ''sC''}"
    by (auto simp: wRoom_eq room_sockets_def)
  from room_fanout[OF h1 h2 h3] h2 h3 rs show ?thesis
    by (auto simp: hiPayload_def str_of_def sockA_def trim_def is_space_def ascii_def)
qed

text \<open>A failed room send emits one \<^verbatim>\<open>error\<close> event, to the sender's socket only, and
  leaves the three maps, the adapter and the user collection as they were.\<close>

lemma failed_send_reports_once:
  assumes "handleSendMessage sock d now mid w = (w', ems)" and "\<not> succeeded ems"
  shows "(\<exists>msg detail. ems = [(ToSocket (sock_id sock), Error msg detail)])
         \<and> onlineUsers w' = onlineUsers w \<and> typingUsers w' = typingUsers w
         \<and> privateTyping w' = privateTyping w \<and> sio_connected w' = sio_connected w
         \<and> sio_joined w' = sio_joined w \<and> db_users w' = db_users w"
  using assms
  by (auto simp: handleSendMessage_def succeeded_def Let_def
           split: if_splits prod.splits sum.splits option.splits
           dest!: createMessage_frame)

text \<open>
  Claim C4 asks that a failed operation leaves no state change visible to other users.
  \<^verbatim>\<open>createMessage\<close> saves the room document with its message counters incremented before
  it checks \<^verbatim>\<open>replyTo\<close>. A member of the room sends a message that replies to a message
  that does not exist: the handler emits the one \<^verbatim>\<open>error\<close> event to the sender and
  stores no message, but the room's \<^verbatim>\<open>messageCount\<close> and \<^verbatim>\<open>stats.totalMessages\<close> have gone
  from 0 to 1 and its \<^verbatim>\<open>lastActivity\<close> is the time of the failed send.
\<close>

theorem failed_send_counts_message:
  "handleSendMessage sockA badReplyPayload 10 ''m1'' wRoom =
     (wRoom\<lparr>db_rooms :=
         [\<lparr>r_id = ''r1'', r_type = ''public'', creator = ''u1'',
           members = [''u1'', ''u2'', ''u3''], admins = [''u1''], isActive = True,
           muteAll = False, messageCount = 1, totalMessages = 1, lastActivity = 10\<rparr>]\<rparr>,
      [(ToSocket ''sA'', Error ''Failed to send message'' (Some ''Parent message not found''))])
   \<and> map messageCount (db_rooms wRoom) = [0]
   \<and> map messageCount (db_rooms (fst (handleSendMessage sockA badReplyPayload 10 ''m1'' wRoom)))
       = [1]
   \<and> db_messages (fst (handleSendMessage sockA badReplyPayload 10 ''m1'' wRoom)) = []"
  by (simp add: wRoom_eq rooms0_def sockA_def badReplyPayload_def handleSendMessage_def js_defs
        create_defs)

text \<open>
  From the evaluation for C4: the room collection after the failed send differs from the
  one before, and no other socket received anything.
\<close>

theorem failed_send_counts_message_witness:
  "db_rooms (fst (handleSendMessage sockA badReplyPayload 10 ''m1'' wRoom)) \<noteq> db_rooms wRoom
   \<and> snd (handleSendMessage sockA badReplyPayload 10 ''m1'' wRoom)
       = [(ToSocket ''sA'', Error ''Failed to send message'' (Some ''Parent message not found''))]
   \<and> received (fst (handleSendMessage sockA badReplyPayload 10 ''m1'' wRoom))
               (snd (handleSendMessage sockA badReplyPayload 10 ''m1'' wRoom)) ''sB'' = []"
  using failed_send_counts_message
  by (simp add: received_def wRoom_eq rooms0_def)

text \<open>
  A join that reports failure after it has acted. \<^verbatim>\<open>getRoomById\<close> admits any user to a
  public room, \<^verbatim>\<open>getRoomMessages\<close> requires membership. The first user, who is not a
  member of the public room \<open>r2\<close>, asks to join it: her socket joins the socket.io room,
  the member's socket receives \<^verbatim>\<open>user_joined\<close>, she receives \<^verbatim>\<open>room_joined\<close>, and
  then the \<^verbatim>\<open>error\<close> event for the refused history.
\<close>

lemma failed_join_broadcasts:
  "\<not> isMember roomOpen ''u1''
   \<and> snd (handleJoinRoom sockA (Some ''r2'') wOpen)
       = [(RoomExcept ''r2'' ''sA'', UserJoined ''u1'' ''r2''),
          (ToSocket ''sA'', RoomJoined ''r2''),
          (ToSocket ''sA'',
           Error ''Failed to join room'' (Some ''You do not have access to this room''))]
   \<and> received (fst (handleJoinRoom sockA (Some ''r2'') wOpen))
               (snd (handleJoinRoom sockA (Some ''r2'') wOpen)) ''sB''
       = [UserJoined ''u1'' ''r2'']
   \<and> (''r2'', ''sA'') \<in> sio_joined (fst (handleJoinRoom sockA (Some ''r2'') wOpen))
   \<and> (''r2'', ''sA'') \<notin> sio_joined wOpen"
  by (simp add: wOpen_def roomOpen_def scenario_defs js_defs connect_defs handleJoinRoom_def
        getRoomById_def getRoomMessages_def findRoomById_def isMember_def received_def
        room_sockets_def)

subsection \<open>Private messages\<close>

lemma handleSendPrivateMessage_success:
  assumes "handleSendPrivateMessage sock d now mid w = (w', ems)" and "succeeded ems"
  shows "\<exists>md. md_id md = mid \<and> md_sender md = userId sock
              \<and> md_recipientId md = Some (str_of (pp_recipientId d))
              \<and> md_content md = trim (str_of (pp_content d))
              \<and> (let received_part =
                        (case map_get (onlineUsers w) (str_of (pp_recipientId d)) of
                           None \<Rightarrow> []
                         | Some rd \<Rightarrow> [(ToRoom (socketId rd), PrivateMessageReceived md)]);
                      ack = (ToSocket (sock_id sock), PrivateMessageSent (pp_tempId d) md);
                      stop_part =
                        (case map_get (onlineUsers w) (str_of (pp_recipientId d)) of
                           None \<Rightarrow> []
                         | Some rd \<Rightarrow> [(ToRoom (socketId rd), TypingStop (userId sock) Private)])
                  in ems = received_part @ [ack] \<or> ems = received_part @ [ack] @ stop_part)
              \<and> sio_connected w' = sio_connected w \<and> sio_joined w' = sio_joined w"
  using assms
  by (auto simp: handleSendPrivateMessage_def succeeded_def Let_def messageData_def trim_trim
           split: if_splits prod.splits sum.splits option.splits
           dest!: createMessage_Inr)

text \<open>
  Claim C2 gates the delivery on the recipient having a live connection. The handler
  gates it on the registry, and \<^verbatim>\<open>cleanupUserData\<close> removes a user's entry when the
  registered socket disconnects, whether or not an older socket of his is still open. In
  \<open>wGhost\<close> the second user's first socket is open and in no registry entry; a private
  send to him succeeds, is acknowledged to the sender, and nothing reaches his socket.
\<close>

theorem private_delivery_live_socket_counterexample:
  "userId sockB = ''u2'' \<and> ''sB'' \<in> sio_connected wGhost
   \<and> map_get (onlineUsers wGhost) ''u2'' = None
   \<and> snd (handleSendPrivateMessage sockA toBob 10 ''m1'' wGhost)
       = [(ToSocket ''sA'',
           PrivateMessageSent (Some ''t2'')
             \<lparr>md_id = ''m1'', md_content = ascii ''psst'', md_type = ''text'',
              md_sender = ''u1'', md_sender_name = ''alice'', md_roomId = None,
              md_recipientId = Some ''u2'', md_replyTo = None, md_timestamp = 10\<rparr>)]
   \<and> received (fst (handleSendPrivateMessage sockA toBob 10 ''m1'' wGhost))
               (snd (handleSendPrivateMessage sockA toBob 10 ''m1'' wGhost)) ''sB'' = []"
  by (simp add: wGhost_eq rooms0_def sockA_def sockB_def toBob_def handleSendPrivateMessage_def
        js_defs create_defs getConversationKey_def received_def)

text \<open>
  Claim C2, amended: the gate is the registry. Let a private send from \<open>sock\<close> to
  recipient \<open>V\<close> succeed (no \<^verbatim>\<open>error\<close> event). The emissions that carry
  \<^verbatim>\<open>private_message_received\<close> are: none when the registry has no entry for \<open>V\<close>
  (\<^verbatim>\<open>onlineUsers.get(recipientId)\<close>), and exactly one, addressed to the socket recorded in
  \<open>V\<close>'s entry, when it has one; so such an event is emitted if and only if \<open>V\<close> is
  registered. In both cases exactly one \<^verbatim>\<open>private_message_sent\<close> is emitted, to the
  sender's socket, with the client's \<^verbatim>\<open>tempId\<close> and the same payload. In terms of
  delivery: the socket recorded for \<open>V\<close>, when connected, receives exactly one
  \<^verbatim>\<open>private_message_received\<close>; when \<open>V\<close> has no entry no socket receives one; and the
  sender's socket, when connected, receives exactly one \<^verbatim>\<open>private_message_sent\<close>.
\<close>

theorem private_delivery_gating:
  assumes "handleSendPrivateMessage sock d now mid w = (w', ems)"
      and "succeeded ems"
  shows "\<exists>md. md_id md = mid \<and> md_sender md = userId sock
           \<and> md_recipientId md = Some (str_of (pp_recipientId d))
           \<and> md_content md = trim (str_of (pp_content d))
           \<and> filter (\<lambda>e. is_private_message_received (snd e)) ems
               = (case map_get (onlineUsers w) (str_of (pp_recipientId d)) of
                    None \<Rightarrow> []
                  | Some rd \<Rightarrow> [(ToRoom (socketId rd), PrivateMessageReceived md)])
           \<and> ((\<exists>e \<in> set ems. is_private_message_received (snd e))
                 \<longleftrightarrow> map_has (onlineUsers w) (str_of (pp_recipientId d)))
           \<and> filter (\<lambda>e. is_private_message_sent (snd e)) ems
               = [(ToSocket (sock_id sock), PrivateMessageSent (pp_tempId d) md)]
           \<and> (\<forall>rd. map_get (onlineUsers w) (str_of (pp_recipientId d)) = Some rd
                     \<and> socketId rd \<in> sio_connected w
                 \<longrightarrow> filter is_private_message_received (received w' ems (socketId rd))
                       = [PrivateMessageReceived md])
           \<and> (map_get (onlineUsers w) (str_of (pp_recipientId d)) = None
                 \<longrightarrow> (\<forall>s. filter is_private_message_received (received w' ems s) = []))
           \<and> (sock_id sock \<in> sio_connected w
                 \<longrightarrow> filter is_private_message_sent (received w' ems (sock_id sock))
                       = [PrivateMessageSent (pp_tempId d) md])"
proof -
  from handleSendPrivateMessage_success[OF assms] obtain md where
    md: "md_id md = mid" "md_sender md = userId sock"
        "md_recipientId md = Some (str_of (pp_recipientId d))"
        "md_content md = trim (str_of (pp_content d))"
    and ems: "ems = (case map_get (onlineUsers w) (str_of (pp_recipientId d)) of
                           None \<Rightarrow> []
                         | Some rd \<Rightarrow> [(ToRoom (socketId rd), PrivateMessageReceived md)])
                    @ [(ToSocket (sock_id sock), PrivateMessageSent (pp_tempId d) md)]
              \<or> ems = (case map_get (onlineUsers w) (str_of (pp_recipientId d)) of
                           None \<Rightarrow> []
                         | Some rd \<Rightarrow> [(ToRoom (socketId rd), PrivateMessageReceived md)])
                    @ [(ToSocket (sock_id sock), PrivateMessageSent (pp_tempId d) md)]
                    @ (case map_get (onlineUsers w) (str_of (pp_recipientId d)) of
                           None \<Rightarrow> []
                         | Some rd \<Rightarrow> [(ToRoom (socketId rd), TypingStop (userId sock) Private)])"
    and sio: "sio_connected w' = sio_connected w" "sio_joined w' = sio_joined w"
    by (auto simp: Let_def)
  have e: "filter (\<lambda>e. is_private_message_received (snd e)) ems
               = (case map_get (onlineUsers w) (str_of (pp_recipientId d)) of
                    None \<Rightarrow> []
                  | Some rd \<Rightarrow> [(ToRoom (socketId rd), PrivateMessageReceived md)])
           \<and> ((\<exists>e \<in> set ems. is_private_message_received (snd e))
                 \<longleftrightarrow> map_has (onlineUsers w) (str_of (pp_recipientId d)))
           \<and> filter (\<lambda>e. is_private_message_sent (snd e)) ems
               = [(ToSocket (sock_id sock), PrivateMessageSent (pp_tempId d) md)]"
    using ems by (auto simp: map_has_def map_get_def split: option.splits)
  have r: "(\<forall>rd. map_get (onlineUsers w) (str_of (pp_recipientId d)) = Some rd
                     \<and> socketId rd \<in> sio_connected w
                 \<longrightarrow> filter is_private_message_received (received w' ems (socketId rd))
                       = [PrivateMessageReceived md])
           \<and> (map_get (onlineUsers w) (str_of (pp_recipientId d)) = None
                 \<longrightarrow> (\<forall>s. filter is_private_message_received (received w' ems s) = []))
           \<and> (sock_id sock \<in> sio_connected w
                 \<longrightarrow> filter is_private_message_sent (received w' ems (sock_id sock))
                       = [PrivateMessageSent (pp_tempId d) md])"
    using ems by (auto simp: received_def room_sockets_def sio split: option.splits)
  show ?thesis
    by (rule exI[of _ md]) (use md e r in \<open>simp only: simp_thms\<close>)
qed

lemma send_to_bob:
  "snd (handleSendPrivateMessage sockA toBob 10 ''m1'' wTwo) =
     [(ToRoom ''sB'',
        PrivateMessageReceived
          \<lparr>md_id = ''m1'', md_content = ascii ''psst'', md_type = ''text'', md_sender = ''u1'',
           md_sender_name = ''alice'', md_roomId = None, md_recipientId = Some ''u2'',
           md_replyTo = None, md_timestamp = 10\<rparr>),
       (ToSocket ''sA'',
        PrivateMessageSent (Some ''t2'')
          \<lparr>md_id = ''m1'', md_content = ascii ''psst'', md_type = ''text'', md_sender = ''u1'',
           md_sender_name = ''alice'', md_roomId = None, md_recipientId = Some ''u2'',
           md_replyTo = None, md_timestamp = 10\<rparr>)]"
  by (simp add: wTwo_eq rooms0_def sockA_def toBob_def handleSendPrivateMessage_def js_defs
        create_defs getConversationKey_def)

lemma send_to_carol:
  "snd (handleSendPrivateMessage sockA toCarol 10 ''m1'' wTwo) =
     [(ToSocket ''sA'',
        PrivateMessageSent (Some ''t3'')
          \<lparr>md_id = ''m1'', md_content = ascii ''psst'', md_type = ''text'', md_sender = ''u1'',
           md_sender_name = ''alice'', md_roomId = None, md_recipientId = Some ''u3'',
           md_replyTo = None, md_timestamp = 10\<rparr>)]"
  by (simp add: wTwo_eq rooms0_def sockA_def toCarol_def handleSendPrivateMessage_def js_defs
        create_defs getConversationKey_def)

text \<open>
  Witness for C2: with only the first two users connected, the first writes to the
  second (registered: one \<^verbatim>\<open>private_message_received\<close> to his socket, one
  acknowledgment) and to the third (not registered: the acknowledgment alone).
\<close>

theorem private_delivery_gating_witness:
  "succeeded (snd (handleSendPrivateMessage sockA toBob 10 ''m1'' wTwo))
   \<and> succeeded (snd (handleSendPrivateMessage sockA toCarol 10 ''m1'' wTwo))
   \<and> map_has (onlineUsers wTwo) ''u2'' \<and> \<not> map_has (onlineUsers wTwo) ''u3''
   \<and> (\<exists>md. filter (\<lambda>e. is_private_message_received (snd e))
                (snd (handleSendPrivateMessage sockA toBob 10 ''m1'' wTwo))
              = [(ToRoom ''sB'', PrivateMessageReceived md)]
           \<and> filter (\<lambda>e. is_private_message_sent (snd e))
                (snd (handleSendPrivateMessage sockA toBob 10 ''m1'' wTwo))
              = [(ToSocket ''sA'', PrivateMessageSent (Some ''t2'') md)]
           \<and> filter is_private_message_received
                (received (fst (handleSendPrivateMessage sockA toBob 10 ''m1'' wTwo))
                          (snd (handleSendPrivateMessage sockA toBob 10 ''m1'' wTwo)) ''sB'')
              = [PrivateMessageReceived md])
   \<and> (\<forall>s. filter is_private_message_received
               (received (fst (handleSendPrivateMessage sockA toCarol 10 ''m1'' wTwo))
                         (snd (handleSendPrivateMessage sockA toCarol 10 ''m1'' wTwo)) s) = [])
   \<and> (\<exists>md. filter (\<lambda>e. is_private_message_received (snd e))
                (snd (handleSendPrivateMessage sockA toCarol 10 ''m1'' wTwo)) = []
           \<and> filter (\<lambda>e. is_private_message_sent (snd e))
                (snd (handleSendPrivateMessage sockA toCarol 10 ''m1'' wTwo))
              = [(ToSocket ''sA'', PrivateMessageSent (Some ''t3'') md)])"
proof -
  have b1: "handleSendPrivateMessage sockA toBob 10 ''m1'' wTwo
      = (fst (handleSendPrivateMessage sockA toBob 10 ''m1'' wTwo),
         snd (handleSendPrivateMessage sockA toBob 10 ''m1'' wTwo))"
    by simp
  have b2: "succeeded (snd (handleSendPrivateMessage sockA toBob 10 ''m1'' wTwo))"
    by (simp add: send_to_bob succeeded_def)
  have c1: "handleSendPrivateMessage sockA toCarol 10 ''m1'' wTwo
      = (fst (handleSendPrivateMessage sockA toCarol 10 ''m1'' wTwo),
         snd (handleSendPrivateMessage sockA toCarol 10 ''m1'' wTwo))"
    by simp
  have c2: "succeeded (snd (handleSendPrivateMessage sockA toCarol 10 ''m1'' wTwo))"
    by (simp add: send_to_carol succeeded_def)
  have on: "map_get (onlineUsers wTwo) ''u2''
      = Some \<lparr>socketId = ''sB'', ud_user = \<lparr>u_id = ''u2'', username = ''bob''\<rparr>,
              connectedAt = 2, rooms = [''r1'']\<rparr>"
      "map_get (onlineUsers wTwo) ''u3'' = None"
    by (simp_all add: wTwo_eq js_defs)
  have conn: "''sB'' \<in> sio_connected wTwo"
    by (simp add: wTwo_eq)
  from private_delivery_gating[OF b1 b2] private_delivery_gating[OF c1 c2] b2 c2 on conn
  show ?thesis
    by (auto simp: toBob_def toCarol_def str_of_def sockA_def map_has_def map_get_def)
qed

subsection \<open>The typing sweep\<close>

text \<open>
  Claim C5 asks that the sweep emit one \<^verbatim>\<open>typing_stop\<close> for each private session it
  removes. In \<open>wStale\<close> there is one private session, started at time 3; the sweep at
  time 20000 removes it and emits nothing.
\<close>

theorem sweep_emits_nothing_counterexample:
  "length (privateTyping wStale)
     - length (privateTyping (fst (cleanupTypingIndicators 20000 wStale))) = 1
   \<and> length (filter is_typing_stop (map snd (snd (cleanupTypingIndicators 20000 wStale)))) = 0"
  by (simp add: wStale_eq cleanupTypingIndicators_def TYPING_TIMEOUT_def)

text \<open>With the timer installed no later than the timeout after \<open>t0\<close>, some run of the
  sweep falls in the interval of one sweep period that follows the timeout.\<close>

lemma sweep_tick_exists:
  assumes "t_init \<le> t0 + TYPING_TIMEOUT"
  shows "\<exists>k\<ge>1. t0 + TYPING_TIMEOUT < sweepTime t_init k
             \<and> sweepTime t_init k \<le> t0 + TYPING_TIMEOUT + SWEEP_INTERVAL"
proof -
  define x where "x = t0 + TYPING_TIMEOUT - t_init"
  have x0: "0 \<le> x" using assms by (simp add: x_def)
  define k where "k = nat (x div 30000) + 1"
  have kk: "int k = x div 30000 + 1" using x0 by (simp add: k_def)
  have "x < int k * 30000" "int k * 30000 \<le> x + 30000"
    unfolding kk by presburger+
  then have "t0 + TYPING_TIMEOUT < sweepTime t_init k
             \<and> sweepTime t_init k \<le> t0 + TYPING_TIMEOUT + SWEEP_INTERVAL"
    unfolding sweepTime_def SWEEP_INTERVAL_def x_def by linarith
  moreover have "1 \<le> k" by (simp add: k_def)
  ultimately show ?thesis by blast
qed

text \<open>
  Claim C5, amended. A run of the sweep at clock reading \<open>now\<close> keeps exactly the private
  sessions with \<open>now - startTime \<le> 10000\<close>, so it removes every private session whose
  start is more than 10 seconds old, and it emits no event. For a timer installed at
  \<open>t_init\<close> and a session started at \<open>t0 \<ge> t_init\<close>, there is a run \<open>k \<ge> 1\<close> of the
  sweep, later than \<open>t0 + 10 s\<close> and no later than \<open>t0 + 10 s\<close> plus one sweep interval,
  after which no session started at or before \<open>t0\<close> is left in the tracker.
\<close>

theorem typing_sweep:
  "privateTyping (fst (cleanupTypingIndicators now w))
     = filter (\<lambda>e. now - startTime (snd e) \<le> TYPING_TIMEOUT) (privateTyping w)
   \<and> snd (cleanupTypingIndicators now w) = []
   \<and> (t_init \<le> t0 \<longrightarrow>
        (\<exists>k\<ge>1. t0 + TYPING_TIMEOUT < sweepTime t_init k
           \<and> sweepTime t_init k \<le> t0 + TYPING_TIMEOUT + SWEEP_INTERVAL
           \<and> (\<forall>w' key td. (key, td) \<in> set (privateTyping w') \<and> startTime td \<le> t0
                 \<longrightarrow> (key, td) \<notin> set (privateTyping
                                         (fst (cleanupTypingIndicators (sweepTime t_init k) w'))))))"
proof -
  have a: "privateTyping (fst (cleanupTypingIndicators now w))
     = filter (\<lambda>e. now - startTime (snd e) \<le> TYPING_TIMEOUT) (privateTyping w)"
    by (simp add: cleanupTypingIndicators_def case_prod_unfold not_less)
  have b: "snd (cleanupTypingIndicators now w) = []"
    by (simp add: cleanupTypingIndicators_def)
  have c: "\<exists>k\<ge>1. t0 + TYPING_TIMEOUT < sweepTime t_init k
           \<and> sweepTime t_init k \<le> t0 + TYPING_TIMEOUT + SWEEP_INTERVAL
           \<and> (\<forall>w' key td. (key, td) \<in> set (privateTyping w') \<and> startTime td \<le> t0
                 \<longrightarrow> (key, td) \<notin> set (privateTyping
                                         (fst (cleanupTypingIndicators (sweepTime t_init k) w'))))"
    if "t_init \<le> t0"
  proof -
    from that have "t_init \<le> t0 + TYPING_TIMEOUT"
      by (simp add: TYPING_TIMEOUT_def)
    from sweep_tick_exists[OF this] obtain k where
      k: "1 \<le> k" "t0 + TYPING_TIMEOUT < sweepTime t_init k"
         "sweepTime t_init k \<le> t0 + TYPING_TIMEOUT + SWEEP_INTERVAL" by blast
    have "(key, td) \<notin> set (privateTyping (fst (cleanupTypingIndicators (sweepTime t_init k) w')))"
      if "startTime td \<le> t0" for w' key td
      using that k(2) by (auto simp: cleanupTypingIndicators_def)
    with k show ?thesis by blast
  qed
  from a b c show ?thesis by blast
qed

text \<open>
  Witness for C5: the session of \<open>wStale\<close>, started at 3, survives a sweep at 10003 and
  is gone after the first run of a timer installed at 0, at 30000, which emits nothing.
\<close>

theorem typing_sweep_witness:
  "(0::int) \<le> 3
   \<and> privateTyping wStale
       = [(''u1:u2'', \<lparr>td_userId = ''u1'', td_username = ''alice'', startTime = 3\<rparr>)]
   \<and> privateTyping (fst (cleanupTypingIndicators 10003 wStale)) = privateTyping wStale
   \<and> privateTyping (fst (cleanupTypingIndicators 30000 wStale)) = []
   \<and> snd (cleanupTypingIndicators 30000 wStale) = []
   \<and> sweepTime 0 1 = 30000"
  using typing_sweep[of 30000 wStale 0 3] typing_sweep[of 10003 wStale 0 3]
  by (simp add: wStale_eq TYPING_TIMEOUT_def sweepTime_def SWEEP_INTERVAL_def)

subsection \<open>Stopping typing\<close>

text \<open>
  Claim C8 asks that \<^verbatim>\<open>typing_stop\<close> from a user with no session in the scope emit nothing
  and change nothing, so that a repeated stop only acts once. The private branch of
  \<^verbatim>\<open>handleTypingStop\<close> deletes the session of the conversation and emits
  \<^verbatim>\<open>typing_stop\<close> without a test, where the send handlers test \<^verbatim>\<open>privateTyping.has\<close>
  and the user's presence in the room's set first, and \<^verbatim>\<open>cleanupUserData\<close> compares the
  stored typist. In \<open>wRoom\<close> nobody is typing anywhere; the first user's stop for her
  conversation with the second user sends him a \<^verbatim>\<open>typing_stop\<close>, and so does a
  second stop. In \<open>wStale\<close> the only private session belongs to the first user; the second
  user's stop for the same conversation removes it.
\<close>

theorem typing_stop_without_session:
  "typingUsers wRoom = [] \<and> privateTyping wRoom = []
   \<and> handleTypingStop sockA stopToBob wRoom = (wRoom, [(ToRoom ''sB'', TypingStop ''u1'' Private)])
   \<and> handleTypingStop sockA stopToBob (fst (handleTypingStop sockA stopToBob wRoom))
       = (wRoom, [(ToRoom ''sB'', TypingStop ''u1'' Private)])
   \<and> map (td_userId \<circ> snd) (privateTyping wStale) = [''u1'']
   \<and> userId sockB = ''u2''
   \<and> privateTyping (fst (handleTypingStop sockB stopToAlice wStale)) = []"
  by (simp add: wRoom_eq wStale_eq sockA_def sockB_def stopToBob_def stopToAlice_def
        handleTypingStop_def getConversationKey_def js_defs Let_def)

text \<open>
  From the evaluation for C8: the second user's socket receives a \<^verbatim>\<open>typing_stop\<close> for a
  user who was not typing, and the tracker of \<open>wStale\<close> has lost a session.
\<close>

theorem typing_stop_without_session_witness:
  "received (fst (handleTypingStop sockA stopToBob wRoom))
            (snd (handleTypingStop sockA stopToBob wRoom)) ''sB''
     = [TypingStop ''u1'' Private]
   \<and> length (privateTyping wStale) = 1
   \<and> length (privateTyping (fst (handleTypingStop sockB stopToAlice wStale))) = 0"
  using typing_stop_without_session
  by (simp add: received_def room_sockets_def wRoom_eq wStale_eq)

lemma get_map_delete_same: "map_get (map_delete k m) k = None"
  by (simp add: map_get_def map_delete_def delete_conv')

lemma get_map_set_same: "map_get (map_set k v m) k = Some v"
  by (simp add: map_get_def map_set_def update_conv')

lemma map_set_twice: "map_set k v (map_set k v m) = map_set k v m"
  by (simp add: map_set_def)

lemma map_delete_twice: "map_delete k (map_delete k m) = map_delete k m"
  by (simp add: map_delete_def delete_idem)

lemma set_delete_twice: "set_delete x (set_delete x s) = set_delete x s"
  by (simp add: set_delete_def)

lemma map_delete_absent: "map_get m k = None \<Longrightarrow> map_delete k m = m"
  by (simp add: map_get_def map_delete_def map_of_eq_None_iff)

text \<open>
  The part of C8 that the handler does meet: a second stop in a row leaves the state as
  the first left it; a stop for a room that has no typing set is a silent no-op; a stop
  for a private conversation that has no session changes no state.
\<close>

lemma typing_stop_twice:
  "fst (handleTypingStop sock d (fst (handleTypingStop sock d w))) = fst (handleTypingStop sock d w)
   \<and> (\<not> (tp_isPrivate d \<and> truthy (tp_recipientId d))
        \<and> map_get (typingUsers w) (str_of (tp_roomId d)) = None
        \<longrightarrow> handleTypingStop sock d w = (w, []))
   \<and> (tp_isPrivate d \<and> truthy (tp_recipientId d)
        \<and> map_get (privateTyping w)
              (getConversationKey (userId sock) (str_of (tp_recipientId d))) = None
        \<longrightarrow> fst (handleTypingStop sock d w) = w)"
  by (auto simp: handleTypingStop_def Let_def get_map_delete_same get_map_set_same
        map_set_twice map_delete_twice set_delete_twice map_delete_absent split: option.splits)

subsection \<open>The history snapshot on join\<close>

lemma history_sorted: "sorted (map m_createdAt (history n))"
proof -
  have "map m_createdAt (history n) = map int [1..<Suc n]"
    by (simp add: history_def msgN_def comp_def del: upt_Suc)
  moreover have "sorted_wrt (\<lambda>x y. int x \<le> int y) [1..<Suc n]"
    by (rule sorted_wrt_mono_rel[OF _ sorted_wrt_upt]) simp
  ultimately show ?thesis by (simp add: sorted_map del: upt_Suc)
qed

lemma history_take: "k \<le> n \<Longrightarrow> take k (history n) = history k"
  by (simp add: history_def take_map del: upt_Suc)

lemma history_length: "length (history n) = n"
  by (simp add: history_def del: upt_Suc)

lemma history_query:
  "filter (\<lambda>m. m_room m = Some ''r1'' \<and> \<not> m_isDeleted m) (history n) = history n"
  by (simp add: history_def msgN_def filter_map comp_def del: upt_Suc)

lemma getRoomMessages_history:
  assumes "db_rooms w = rooms0" and "db_messages w = history 51"
  shows "getRoomMessages ''r1'' ''u1'' 1 50 None None w
     = Inr (history 50,
            \<lparr>currentPage = 1, totalPages = 2, totalMessages_p = 51,
             hasNext = True, hasPrev = False, limit_p = 50\<rparr>)"
  by (simp add: getRoomMessages_def findWithPagination_def findRoomById_def isMember_def
        assms rooms0_def MAX_PAGE_SIZE_def Let_def history_query history_length
        sort_key_id_if_sorted[OF history_sorted] history_take)

lemma handleJoinRoom_history:
  assumes "db_rooms w = rooms0" and "db_messages w = history 51"
  shows "snd (handleJoinRoom sockA (Some ''r1'') w)
     = [(RoomExcept ''r1'' ''sA'', UserJoined ''u1'' ''r1''),
        (ToSocket ''sA'', RoomJoined ''r1''),
        (ToSocket ''sA'', RoomMessages ''r1'' (rev (history 50)) True)]"
proof -
  have g: "getRoomById ''r1'' ''u1'' w = Inr (hd rooms0)"
    by (simp add: getRoomById_def findRoomById_def assms rooms0_def isMember_def)
  show ?thesis
    unfolding handleJoinRoom_def
    by (simp add: truthy_def str_of_def sockA_def g getRoomMessages_history assms Let_def
          del: One_nat_def)
qed

text \<open>
  Claim C9 asks that, for a room with more than 50 undeleted messages, the snapshot sent
  on join be the 50 most recent ones, newest first. \<^verbatim>\<open>handleJoinRoom\<close> calls
  \<^verbatim>\<open>getRoomMessages\<close> with \<^verbatim>\<open>limit: 50\<close> and no \<^verbatim>\<open>before\<close>, so the query sorts by
  \<^verbatim>\<open>createdAt\<close> ascending and returns the first page, which the handler reverses. For a
  room holding 51 messages created at times 1 to 51, the snapshot is the messages of
  times 50 down to 1: the oldest message is in it and the most recent one is not. It is
  sent in a \<^verbatim>\<open>room_messages\<close> event that follows \<^verbatim>\<open>room_joined\<close>.
\<close>

theorem join_snapshot_oldest_page:
  "snd (handleJoinRoom sockA (Some ''r1'') (wRoom\<lparr>db_messages := history 51\<rparr>))
     = [(RoomExcept ''r1'' ''sA'', UserJoined ''u1'' ''r1''),
        (ToSocket ''sA'', RoomJoined ''r1''),
        (ToSocket ''sA'', RoomMessages ''r1'' (rev (history 50)) True)]
   \<and> msgN 51 \<in> set (history 51)
   \<and> msgN 51 \<notin> set (rev (history 50))
   \<and> msgN 1 \<in> set (rev (history 50))"
proof -
  have a: "snd (handleJoinRoom sockA (Some ''r1'') (wRoom\<lparr>db_messages := history 51\<rparr>))
     = [(RoomExcept ''r1'' ''sA'', UserJoined ''u1'' ''r1''),
        (ToSocket ''sA'', RoomJoined ''r1''),
        (ToSocket ''sA'', RoomMessages ''r1'' (rev (history 50)) True)]"
    by (rule handleJoinRoom_history) (simp_all add: wRoom_eq)
  have inj: "inj msgN"
    by (rule injI) (simp add: msgN_def)
  have b: "msgN 51 \<in> set (history 51)" "msgN 51 \<notin> set (rev (history 50))"
          "msgN 1 \<in> set (rev (history 50))"
    using inj by (auto simp: history_def inj_image_mem_iff simp del: upt_Suc)
  from a b show ?thesis by blast
qed

text \<open>
  From the evaluation for C9: the three events of the join, with a snapshot of 50 of the
  51 messages.
\<close>

theorem join_snapshot_oldest_page_witness:
  "map snd (snd (handleJoinRoom sockA (Some ''r1'') (wRoom\<lparr>db_messages := history 51\<rparr>)))
     = [UserJoined ''u1'' ''r1'', RoomJoined ''r1'', RoomMessages ''r1'' (rev (history 50)) True]
   \<and> length (rev (history 50)) = 50
   \<and> length (history 51) = 51"
  using join_snapshot_oldest_page
  by (simp add: history_length)

end
